theory Spec2Isabelle
  imports Complex_Main
begin

section \<open>The graphics layer as the wrapper sees it\<close>

text \<open>
  The wrapper (classes \<open>Shader\<close>, \<open>Texture\<close> and \<open>FastWebGL\<close>) issues commands to a
  WebGL rendering context and reads a few answers back. The commands it issues are kept
  in order in \<open>calls\<close>; the answers of the context and of the page (allocation results,
  compile, link and validate status, info logs, uniform and attribute locations, window
  size, clock) are the fields of \<open>gl_env\<close>. A JavaScript number is passed through by every
  method and never computed with; it is a \<open>real\<close> here. Pixel sizes are naturals.
\<close>

type_synonym number = real
type_synonym handle = nat
type_synonym location = nat

datatype shader_type = VERTEX_SHADER | FRAGMENT_SHADER

datatype glcall =
    CreateShader shader_type "handle option"
  | ShaderSource handle string
  | CompileShader handle
  | DeleteShader handle
  | CreateProgram "handle option"
  | AttachShader handle handle
  | LinkProgram handle
  | ValidateProgram handle
  | DeleteProgram handle
  | UseProgram handle
  | CreateTexture "handle option"
  | DeleteTexture handle
  | CreateBuffer "handle option"
  | BindBuffer handle
  | BufferData "number list"
  | EnableVertexAttribArray int
  | VertexAttribPointer int nat
  | Uniform1f location number
  | Uniform2f location number number
  | Uniform3f location number number number
  | Uniform4f location number number number number
  | Viewport nat nat nat nat
  | ClearColor number number number number
  | ClearColorBuffer
  | DrawTriangles nat nat

text \<open>
  Every \<open>throw new Error(msg)\<close> of the source is \<open>Error msg\<close>. \<open>TypeError\<close> is what the
  context's \<open>uniform*f\<close> raises when its first argument is not a uniform location.
\<close>

datatype error = Error string | TypeError

record world =
  calls :: "glcall list"
  next_handle :: handle
  canvas_width :: nat
  canvas_height :: nat
  console :: "string list"
  image_requests :: "string list"

record gl_env =
  context_available :: bool
  create_shader_ok :: "shader_type \<Rightarrow> bool"
  compile_status :: "shader_type \<Rightarrow> string \<Rightarrow> bool"
  shader_info_log :: "shader_type \<Rightarrow> string \<Rightarrow> string"
  create_program_ok :: bool
  link_status :: bool
  validate_status :: bool
  program_info_log :: string
  create_texture_ok :: "nat \<Rightarrow> bool"
  create_buffer_ok :: bool
  uniform_location :: "string \<Rightarrow> location option"
  attrib_location :: "string \<Rightarrow> int"
  inner_width :: nat
  inner_height :: nat
  now :: number

definition issue :: "glcall \<Rightarrow> world \<Rightarrow> world" where
  "issue c w = w\<lparr>calls := calls w @ [c]\<rparr>"

text \<open>
  A \<open>create*\<close> call of the context answers a new object or \<open>null\<close>; the objects are
  numbered as they are handed out.
\<close>

definition allocate :: "bool \<Rightarrow> (handle option \<Rightarrow> glcall) \<Rightarrow> world \<Rightarrow> handle option \<times> world" where
  "allocate ok mk w =
     (if ok then (Some (next_handle w), issue (mk (Some (next_handle w))) (w\<lparr>next_handle := Suc (next_handle w)\<rparr>))
      else (None, issue (mk None) w))"

section \<open>types.ts\<close>

datatype uvalue = Scalar number | Array "number list"

record uniform =
  u_name :: string
  u_value :: uvalue

datatype FilterMode = NEAREST | LINEAR | NEAREST_MIPMAP_NEAREST | LINEAR_MIPMAP_NEAREST
  | NEAREST_MIPMAP_LINEAR | LINEAR_MIPMAP_LINEAR

datatype WrapMode = CLAMP_TO_EDGE | REPEAT | MIRRORED_REPEAT

record TextureOptions =
  minFilter :: "FilterMode option"
  magFilter :: "FilterMode option"
  wrapS :: "WrapMode option"
  wrapT :: "WrapMode option"

section \<open>shader.ts\<close>

text \<open>
  \<open>new Shader(gl, type, source)\<close> is \<open>createShader\<close>; the object holds the compiled
  handle, which \<open>getShader\<close> returns and \<open>dispose\<close> deletes.
\<close>

definition createShader :: "gl_env \<Rightarrow> shader_type \<Rightarrow> string \<Rightarrow> world \<Rightarrow> (error + handle) \<times> world" where
  "createShader env ty src w =
     (case allocate (create_shader_ok env ty) (CreateShader ty) w of
        (None, w1) \<Rightarrow> (Inl (Error ''Error creating shader.''), w1)
      | (Some shader, w1) \<Rightarrow>
          (let w2 = issue (CompileShader shader) (issue (ShaderSource shader src) w1)
           in if \<not> compile_status env ty src
              then (Inl (Error (''Error compiling shader:'' @ shader_info_log env ty src)),
                    issue (DeleteShader shader) w2)
              else (Inr shader, w2)))"

definition Shader_dispose :: "handle \<Rightarrow> world \<Rightarrow> world" where
  "Shader_dispose shader w = issue (DeleteShader shader) w"

section \<open>texture.ts\<close>

record texture_params =
  t_name :: string
  t_source :: string
  t_options :: "TextureOptions option"

record Texture =
  tex_program :: handle
  tex_unit :: nat
  tex_name :: string
  tex_source :: string
  tex_options :: TextureOptions
  texture :: handle

definition createTexture :: "gl_env \<Rightarrow> nat \<Rightarrow> world \<Rightarrow> (error + handle) \<times> world" where
  "createTexture env unit_index w =
     (case allocate (create_texture_ok env unit_index) CreateTexture w of
        (None, w1) \<Rightarrow> (Inl (Error ''Failed to create WebGL texture.''), w1)
      | (Some t, w1) \<Rightarrow> (Inr t, w1))"

text \<open>
  \<open>loadTexture\<close> starts the image request and installs the \<open>onload\<close> and \<open>onerror\<close>
  handlers. The handlers run in a later task of the page, after the constructor has
  returned, so inside the constructor the context receives no command from it.
\<close>

definition loadTexture :: "string \<Rightarrow> world \<Rightarrow> world" where
  "loadTexture src w = w\<lparr>image_requests := image_requests w @ [src]\<rparr>"

definition new_Texture :: "gl_env \<Rightarrow> handle \<Rightarrow> nat \<Rightarrow> texture_params \<Rightarrow> world \<Rightarrow> (error + Texture) \<times> world" where
  "new_Texture env prog unit_index d w =
     (case createTexture env unit_index w of
        (Inl e, w1) \<Rightarrow> (Inl e, w1)
      | (Inr t, w1) \<Rightarrow>
          (Inr \<lparr>tex_program = prog, tex_unit = unit_index, tex_name = t_name d, tex_source = t_source d,
                tex_options = (case t_options d of
                                 None \<Rightarrow> \<lparr>minFilter = None, magFilter = None, wrapS = None, wrapT = None\<rparr>
                               | Some opts \<Rightarrow> opts),
                texture = t\<rparr>,
           loadTexture (t_source d) w1))"

definition Texture_dispose :: "Texture \<Rightarrow> world \<Rightarrow> world" where
  "Texture_dispose t w = issue (DeleteTexture (texture t)) w"

section \<open>The class FastWebGL\<close>

subsection \<open>The two name-indexed objects\<close>

text \<open>
  \<open>uniforms\<close> and \<open>uniformValues\<close> start as the object literal \<open>{}\<close> and are read and
  written as \<open>obj[name]\<close>. Such an object has its own properties and, behind them, the
  members every object inherits from \<open>Object.prototype\<close>: reading \<open>obj[name]\<close> answers the
  own property when there is one and the inherited member otherwise, and only then
  \<open>undefined\<close>. The inherited members are functions, and \<open>__proto__\<close> reads as the
  prototype object: all of them are truthy and none is a uniform location. Writing
  \<open>obj[name] = v\<close> makes or overwrites an own property, except for the name \<open>__proto__\<close>,
  whose inherited setter replaces the prototype by \<open>v\<close> when \<open>v\<close> is an object (a
  location or an array) and does nothing when \<open>v\<close> is a number.
\<close>

definition object_prototype_names :: "string list" where
  "object_prototype_names =
     [''constructor'', ''hasOwnProperty'', ''isPrototypeOf'', ''propertyIsEnumerable'',
      ''toLocaleString'', ''toString'', ''valueOf'', ''__proto__'', ''__defineGetter__'',
      ''__defineSetter__'', ''__lookupGetter__'', ''__lookupSetter__'']"

datatype member = Location location | Builtin

record location_object =
  own :: "string \<rightharpoonup> location"
  proto :: "location option"

definition empty_object :: location_object where
  "empty_object = \<lparr>own = Map.empty, proto = None\<rparr>"

definition get_member :: "location_object \<Rightarrow> string \<Rightarrow> member option" where
  "get_member obj name =
     (case own obj name of
        Some l \<Rightarrow> Some (Location l)
      | None \<Rightarrow>
          if name = ''__proto__'' then (case proto obj of Some l \<Rightarrow> Some (Location l) | None \<Rightarrow> Some Builtin)
          else if name \<in> set object_prototype_names then Some Builtin
          else None)"

definition set_member :: "string \<Rightarrow> location \<Rightarrow> location_object \<Rightarrow> location_object" where
  "set_member name l obj =
     (if name = ''__proto__'' then obj\<lparr>proto := Some l\<rparr> else obj\<lparr>own := (own obj)(name \<mapsto> l)\<rparr>)"

text \<open>
  \<open>uniformValues\<close> is written and never read by the class, so only its own properties
  are kept.
\<close>

definition set_value :: "string \<Rightarrow> uvalue \<Rightarrow> (string \<rightharpoonup> uvalue) \<Rightarrow> (string \<rightharpoonup> uvalue)" where
  "set_value name v m = (if name = ''__proto__'' then m else m(name \<mapsto> v))"

subsection \<open>The object and its methods\<close>

record params =
  vertexSource :: string
  fragmentSource :: string
  p_textures :: "texture_params list"
  p_uniforms :: "uniform list"
  opt_width :: "nat option"
  opt_height :: "nat option"

record FastWebGL =
  gl :: world
  width :: nat
  height :: nat
  vertexShader :: handle
  fragmentShader :: handle
  program :: handle
  textures :: "Texture list"
  uniforms :: location_object
  uniformValues :: "string \<rightharpoonup> uvalue"
  attribLocations :: "string \<rightharpoonup> int"
  startTime :: number

definition createProgram :: "gl_env \<Rightarrow> handle \<Rightarrow> handle \<Rightarrow> world \<Rightarrow> (error + handle) \<times> world" where
  "createProgram env vs fs w =
     (case allocate (create_program_ok env) CreateProgram w of
        (None, w1) \<Rightarrow> (Inl (Error ''Unable to create shader program.''), w1)
      | (Some prog, w1) \<Rightarrow>
          (let w2 = issue (ValidateProgram prog) (issue (LinkProgram prog)
                      (issue (AttachShader prog fs) (issue (AttachShader prog vs) w1)))
           in if \<not> link_status env
              then (Inl (Error (''Error linking program: '' @ program_info_log env)),
                    issue (DeleteProgram prog) w2)
              else if \<not> validate_status env
              then (Inr prog, w2\<lparr>console := console w2 @ [''Error validating program: '' @ program_info_log env]\<rparr>)
              else (Inr prog, w2)))"

text \<open>The context's \<open>uniform1f\<close> .. \<open>uniform4f\<close>, given whatever \<open>uniforms[name]\<close> read.\<close>

definition uniformf :: "member \<Rightarrow> (location \<Rightarrow> glcall) \<Rightarrow> world \<Rightarrow> (error + unit) \<times> world" where
  "uniformf loc mk w = (case loc of Location l \<Rightarrow> (Inr (), issue (mk l) w) | Builtin \<Rightarrow> (Inl TypeError, w))"

definition setUniformValue :: "member \<Rightarrow> uvalue \<Rightarrow> world \<Rightarrow> (error + unit) \<times> world" where
  "setUniformValue loc v w =
     (case v of
        Scalar x \<Rightarrow> uniformf loc (\<lambda>l. Uniform1f l x) w
      | Array xs \<Rightarrow>
          if length xs = 1 then uniformf loc (\<lambda>l. Uniform1f l (xs ! 0)) w
          else if length xs = 2 then uniformf loc (\<lambda>l. Uniform2f l (xs ! 0) (xs ! 1)) w
          else if length xs = 3 then uniformf loc (\<lambda>l. Uniform3f l (xs ! 0) (xs ! 1) (xs ! 2)) w
          else if length xs = 4 then uniformf loc (\<lambda>l. Uniform4f l (xs ! 0) (xs ! 1) (xs ! 2) (xs ! 3)) w
          else (Inr (), w))"

definition draw :: "FastWebGL \<Rightarrow> FastWebGL" where
  "draw s =
     s\<lparr>gl := issue (DrawTriangles 0 6) (issue (UseProgram (program s)) (issue ClearColorBuffer
              (issue (ClearColor 0 0 0 0)
                (issue (Viewport 0 0 (canvas_width (gl s)) (canvas_height (gl s))) (gl s)))))\<rparr>"

definition resize :: "nat \<Rightarrow> nat \<Rightarrow> FastWebGL \<Rightarrow> FastWebGL" where
  "resize w h s =
     s\<lparr>width := w, height := h,
       gl := issue (Viewport 0 0 w h) ((gl s)\<lparr>canvas_width := w, canvas_height := h\<rparr>)\<rparr>"

fun setUniforms :: "gl_env \<Rightarrow> uniform list \<Rightarrow> FastWebGL \<Rightarrow> error option \<times> FastWebGL" where
  "setUniforms env [] s = (None, s)"
| "setUniforms env (u # us) s =
     (case uniform_location env (u_name u) of
        None \<Rightarrow> setUniforms env us s
      | Some l \<Rightarrow>
          (let s1 = s\<lparr>uniforms := set_member (u_name u) l (uniforms s),
                       uniformValues := set_value (u_name u) (u_value u) (uniformValues s)\<rparr>
           in case setUniformValue (Location l) (u_value u) (gl s1) of
                (Inl e, g) \<Rightarrow> (Some e, s1\<lparr>gl := g\<rparr>)
              | (Inr _, g) \<Rightarrow> setUniforms env us (s1\<lparr>gl := g\<rparr>)))"

definition updateUniform :: "string \<Rightarrow> uvalue \<Rightarrow> FastWebGL \<Rightarrow> error option \<times> FastWebGL" where
  "updateUniform name v s =
     (case get_member (uniforms s) name of
        None \<Rightarrow> (None, s)
      | Some loc \<Rightarrow>
          (let s1 = s\<lparr>uniformValues := set_value name v (uniformValues s)\<rparr>
           in case setUniformValue loc v (gl s1) of
                (Inl e, g) \<Rightarrow> (Some e, s1\<lparr>gl := g\<rparr>)
              | (Inr _, g) \<Rightarrow> (None, draw (s1\<lparr>gl := g\<rparr>))))"

definition positions :: "number list" where
  "positions = [-1, -1, 1, -1, -1, 1, -1, 1, 1, -1, 1, 1]"

definition setupAttributes :: "gl_env \<Rightarrow> FastWebGL \<Rightarrow> error option \<times> FastWebGL" where
  "setupAttributes env s =
     (let a = attrib_location env ''a_position'';
          s1 = s\<lparr>attribLocations := (attribLocations s)(''a_position'' \<mapsto> a)\<rparr>
      in case allocate (create_buffer_ok env) CreateBuffer (gl s1) of
           (None, g) \<Rightarrow> (Some (Error ''Unable to create buffer.''), s1\<lparr>gl := g\<rparr>)
         | (Some b, g) \<Rightarrow>
             (None, s1\<lparr>gl := issue (VertexAttribPointer a 2) (issue (EnableVertexAttribArray a)
                              (issue (BufferData positions) (issue (BindBuffer b) g)))\<rparr>))"

definition dispose :: "FastWebGL \<Rightarrow> FastWebGL" where
  "dispose s =
     s\<lparr>gl := fold Texture_dispose (textures s)
              (Shader_dispose (fragmentShader s) (Shader_dispose (vertexShader s)
                (issue (DeleteProgram (program s)) (gl s))))\<rparr>"

subsection \<open>The constructor\<close>

text \<open>\<open>textures.map((d, i) => new Texture({..., unit: i, ...}))\<close>, from index \<open>i\<close> on.\<close>

fun textures_map :: "gl_env \<Rightarrow> handle \<Rightarrow> nat \<Rightarrow> texture_params list \<Rightarrow> world \<Rightarrow> (error + Texture list) \<times> world" where
  "textures_map env prog i [] w = (Inr [], w)"
| "textures_map env prog i (d # ds) w =
     (case new_Texture env prog i d w of
        (Inl e, w1) \<Rightarrow> (Inl e, w1)
      | (Inr t, w1) \<Rightarrow>
          (case textures_map env prog (Suc i) ds w1 of
             (Inl e, w2) \<Rightarrow> (Inl e, w2)
           | (Inr ts, w2) \<Rightarrow> (Inr (t # ts), w2)))"

text \<open>
  A constructor that throws hands no object to its caller: the result is the error and
  the state of the page at the throw, or the object.
\<close>

definition new_FastWebGL :: "gl_env \<Rightarrow> params \<Rightarrow> world \<Rightarrow> (error \<times> world) + FastWebGL" where
  "new_FastWebGL env p w =
     (if \<not> context_available env then Inl (Error ''WebGL not supported.'', w)
      else case createShader env VERTEX_SHADER (vertexSource p) w of
        (Inl e, w1) \<Rightarrow> Inl (e, w1)
      | (Inr vs, w1) \<Rightarrow>
      (case createShader env FRAGMENT_SHADER (fragmentSource p) w1 of
        (Inl e, w2) \<Rightarrow> Inl (e, w2)
      | (Inr fs, w2) \<Rightarrow>
      (case createProgram env vs fs w2 of
        (Inl e, w3) \<Rightarrow> Inl (e, w3)
      | (Inr prog, w3) \<Rightarrow>
      (case textures_map env prog 0 (p_textures p) w3 of
        (Inl e, w4) \<Rightarrow> Inl (e, w4)
      | (Inr ts, w4) \<Rightarrow>
      (let s0 = \<lparr>gl = issue (UseProgram prog) w4,
                 width = (case opt_width p of Some x \<Rightarrow> x | None \<Rightarrow> inner_width env),
                 height = (case opt_height p of Some x \<Rightarrow> x | None \<Rightarrow> inner_height env),
                 vertexShader = vs, fragmentShader = fs, program = prog, textures = ts,
                 uniforms = empty_object, uniformValues = Map.empty, attribLocations = Map.empty,
                 startTime = now env\<rparr>
       in case setupAttributes env s0 of
            (Some e, s1) \<Rightarrow> Inl (e, gl s1)
          | (None, s1) \<Rightarrow>
          (case setUniforms env (p_uniforms p) s1 of
            (Some e, s2) \<Rightarrow> Inl (e, gl s2)
          | (None, s2) \<Rightarrow> Inr (draw (resize (width s2) (height s2) s2))))))))"

section \<open>Reading the command list\<close>

text \<open>
  The encoding rule in the words of the specification: a scalar goes up as a one-component
  float, a sequence of length 1, 2, 3 or 4 as a vector of that many components, and a
  sequence of any other length not at all. \<open>setUniformValue\<close> above is the code; this is
  what it is compared with.
\<close>

definition spec_uniform_upload :: "location \<Rightarrow> uvalue \<Rightarrow> glcall list" where
  "spec_uniform_upload l v =
     (case v of
        Scalar x \<Rightarrow> [Uniform1f l x]
      | Array [a] \<Rightarrow> [Uniform1f l a]
      | Array [a, b] \<Rightarrow> [Uniform2f l a b]
      | Array [a, b, c] \<Rightarrow> [Uniform3f l a b c]
      | Array [a, b, c, d] \<Rightarrow> [Uniform4f l a b c d]
      | Array _ \<Rightarrow> [])"

text \<open>The five commands of one \<open>draw()\<close>, and the number of redraws in a command list.\<close>

definition draw_calls :: "FastWebGL \<Rightarrow> glcall list" where
  "draw_calls s = [Viewport 0 0 (canvas_width (gl s)) (canvas_height (gl s)), ClearColor 0 0 0 0,
     ClearColorBuffer, UseProgram (program s), DrawTriangles 0 6]"

fun is_draw :: "glcall \<Rightarrow> bool" where
  "is_draw (DrawTriangles first n) = True"
| "is_draw _ = False"

definition count_draws :: "glcall list \<Rightarrow> nat" where
  "count_draws cs = length (filter is_draw cs)"

text \<open>
  Shader and program handles handed out in a command list, those deleted in it, and those
  handed out and not deleted.
\<close>

fun is_delete :: "glcall \<Rightarrow> bool" where
  "is_delete (DeleteShader h) = True"
| "is_delete (DeleteProgram h) = True"
| "is_delete (DeleteTexture h) = True"
| "is_delete _ = False"

fun created :: "glcall list \<Rightarrow> handle list" where
  "created [] = []"
| "created (CreateShader ty (Some h) # cs) = h # created cs"
| "created (CreateProgram (Some h) # cs) = h # created cs"
| "created (c # cs) = created cs"

fun released :: "glcall list \<Rightarrow> handle list" where
  "released [] = []"
| "released (DeleteShader h # cs) = h # released cs"
| "released (DeleteProgram h # cs) = h # released cs"
| "released (c # cs) = released cs"

definition leaked :: "glcall list \<Rightarrow> handle list" where
  "leaked cs = filter (\<lambda>h. h \<notin> set (released cs)) (created cs)"

text \<open>
  Every handle handed out in a command list (shader, program, texture or buffer), every
  handle deleted in it, and those handed out and never deleted. The class calls
  \<open>deleteShader\<close>, \<open>deleteProgram\<close> and \<open>deleteTexture\<close>; it has no call of
  \<open>deleteBuffer\<close>, so the command list has none.
\<close>

fun handed_out :: "glcall list \<Rightarrow> handle list" where
  "handed_out [] = []"
| "handed_out (CreateShader ty (Some h) # cs) = h # handed_out cs"
| "handed_out (CreateProgram (Some h) # cs) = h # handed_out cs"
| "handed_out (CreateTexture (Some h) # cs) = h # handed_out cs"
| "handed_out (CreateBuffer (Some h) # cs) = h # handed_out cs"
| "handed_out (c # cs) = handed_out cs"

fun deleted :: "glcall list \<Rightarrow> handle list" where
  "deleted [] = []"
| "deleted (DeleteShader h # cs) = h # deleted cs"
| "deleted (DeleteProgram h # cs) = h # deleted cs"
| "deleted (DeleteTexture h # cs) = h # deleted cs"
| "deleted (c # cs) = deleted cs"

definition undeleted :: "glcall list \<Rightarrow> handle list" where
  "undeleted cs = filter (\<lambda>h. h \<notin> set (deleted cs)) (handed_out cs)"

text \<open>
  What a failed construction has issued, by the step that failed: nothing when no context
  could be had; no deletion at all and a refused allocation as the last command; or one
  single deletion, as the last command, of the shader that did not compile or of the
  program that did not link, which is the handle handed out last.
\<close>

definition failure_shape :: "gl_env \<Rightarrow> error \<Rightarrow> glcall list \<Rightarrow> bool" where
  "failure_shape env e cs \<longleftrightarrow>
     (cs = [] \<and> e = Error ''WebGL not supported.'') \<or>
     (cs \<noteq> [] \<and> filter is_delete cs = [] \<and>
        (last cs, e) \<in> {(CreateShader VERTEX_SHADER None, Error ''Error creating shader.''),
                        (CreateShader FRAGMENT_SHADER None, Error ''Error creating shader.''),
                        (CreateProgram None, Error ''Unable to create shader program.''),
                        (CreateTexture None, Error ''Failed to create WebGL texture.''),
                        (CreateBuffer None, Error ''Unable to create buffer.'')}) \<or>
     (created cs \<noteq> [] \<and> filter is_delete cs = [DeleteShader (last (created cs))] \<and>
        last cs = DeleteShader (last (created cs)) \<and>
        (\<exists>ty src. e = Error (''Error compiling shader:'' @ shader_info_log env ty src))) \<or>
     (created cs \<noteq> [] \<and> filter is_delete cs = [DeleteProgram (last (created cs))] \<and>
        last cs = DeleteProgram (last (created cs)) \<and>
        e = Error (''Error linking program: '' @ program_info_log env))"

text \<open>
  The steps before the link succeed; the commands of a construction that stops at a failed
  link; the descriptor names that end up as own properties of \<open>uniforms\<close>.
\<close>

definition steps_ok :: "gl_env \<Rightarrow> params \<Rightarrow> bool" where
  "steps_ok env p \<longleftrightarrow>
     context_available env \<and>
     create_shader_ok env VERTEX_SHADER \<and> compile_status env VERTEX_SHADER (vertexSource p) \<and>
     create_shader_ok env FRAGMENT_SHADER \<and> compile_status env FRAGMENT_SHADER (fragmentSource p) \<and>
     create_program_ok env"

definition link_failure_calls :: "handle \<Rightarrow> params \<Rightarrow> glcall list" where
  "link_failure_calls n p =
     [CreateShader VERTEX_SHADER (Some n), ShaderSource n (vertexSource p), CompileShader n,
      CreateShader FRAGMENT_SHADER (Some (n + 1)), ShaderSource (n + 1) (fragmentSource p),
      CompileShader (n + 1),
      CreateProgram (Some (n + 2)), AttachShader (n + 2) n, AttachShader (n + 2) (n + 1),
      LinkProgram (n + 2), ValidateProgram (n + 2), DeleteProgram (n + 2)]"

definition registered_names :: "gl_env \<Rightarrow> uniform list \<Rightarrow> string set" where
  "registered_names env us =
     {n \<in> u_name ` set us. uniform_location env n \<noteq> None \<and> n \<noteq> ''__proto__''}"

section \<open>A concrete page\<close>

text \<open>
  A page on which every step succeeds and the linked program declares \<open>u_time\<close> and
  \<open>u_resolution\<close>; a construction with two textures and three uniform descriptors, one of
  them not declared by the program; and the object that construction returns.
\<close>

definition example_env :: gl_env where
  "example_env = \<lparr>context_available = True, create_shader_ok = (\<lambda>_. True), compile_status = (\<lambda>_ _. True),
     shader_info_log = (\<lambda>_ _. ''bad shader''), create_program_ok = True, link_status = True,
     validate_status = True, program_info_log = ''bad program'', create_texture_ok = (\<lambda>_. True),
     create_buffer_ok = True,
     uniform_location = (\<lambda>n. if n = ''u_time'' then Some 0 else if n = ''u_resolution'' then Some 1 else None),
     attrib_location = (\<lambda>n. if n = ''a_position'' then 0 else -1),
     inner_width = 1024, inner_height = 768, now = 0\<rparr>"

definition example_params :: params where
  "example_params = \<lparr>vertexSource = ''v'', fragmentSource = ''f'',
     p_textures = [\<lparr>t_name = ''u_tex0'', t_source = ''a.png'', t_options = None\<rparr>,
                   \<lparr>t_name = ''u_tex1'', t_source = ''b.png'', t_options = None\<rparr>],
     p_uniforms = [\<lparr>u_name = ''u_time'', u_value = Scalar 0\<rparr>,
                   \<lparr>u_name = ''u_resolution'', u_value = Array [800, 600]\<rparr>,
                   \<lparr>u_name = ''u_missing'', u_value = Scalar 1\<rparr>],
     opt_width = Some 800, opt_height = None\<rparr>"

definition example_world :: world where
  "example_world = \<lparr>calls = [], next_handle = 0, canvas_width = 300, canvas_height = 150, console = [],
     image_requests = []\<rparr>"

definition example_object :: FastWebGL where
  "example_object =
     \<lparr>gl = \<lparr>calls =
              [CreateShader VERTEX_SHADER (Some 0), ShaderSource 0 ''v'', CompileShader 0,
               CreateShader FRAGMENT_SHADER (Some 1), ShaderSource 1 ''f'', CompileShader 1,
               CreateProgram (Some 2), AttachShader 2 0, AttachShader 2 1, LinkProgram 2,
               ValidateProgram 2, CreateTexture (Some 3), CreateTexture (Some 4), UseProgram 2,
               CreateBuffer (Some 5), BindBuffer 5, BufferData positions, EnableVertexAttribArray 0,
               VertexAttribPointer 0 2, Uniform1f 0 0, Uniform2f 1 800 600, Viewport 0 0 800 768,
               Viewport 0 0 800 768, ClearColor 0 0 0 0, ClearColorBuffer, UseProgram 2,
               DrawTriangles 0 6],
            next_handle = 6, canvas_width = 800, canvas_height = 768, console = [],
            image_requests = [''a.png'', ''b.png'']\<rparr>,
       width = 800, height = 768, vertexShader = 0, fragmentShader = 1, program = 2,
       textures =
         [\<lparr>tex_program = 2, tex_unit = 0, tex_name = ''u_tex0'', tex_source = ''a.png'',
            tex_options = \<lparr>minFilter = None, magFilter = None, wrapS = None, wrapT = None\<rparr>,
            texture = 3\<rparr>,
          \<lparr>tex_program = 2, tex_unit = 1, tex_name = ''u_tex1'', tex_source = ''b.png'',
            tex_options = \<lparr>minFilter = None, magFilter = None, wrapS = None, wrapT = None\<rparr>,
            texture = 4\<rparr>],
       uniforms = \<lparr>own = [''u_time'' \<mapsto> 0, ''u_resolution'' \<mapsto> 1], proto = None\<rparr>,
       uniformValues = [''u_time'' \<mapsto> Scalar 0, ''u_resolution'' \<mapsto> Array [800, 600]],
       attribLocations = [''a_position'' \<mapsto> 0], startTime = 0\<rparr>"

text \<open>The same page with a fragment shader that does not compile, a program that does not link, and a program that does not validate.\<close>

definition env_fragment_fails :: gl_env where
  "env_fragment_fails = example_env\<lparr>compile_status := (\<lambda>ty src. ty = VERTEX_SHADER)\<rparr>"

definition env_link_fails :: gl_env where
  "env_link_fails = example_env\<lparr>link_status := False\<rparr>"

definition env_validate_fails :: gl_env where
  "env_validate_fails = example_env\<lparr>validate_status := False\<rparr>"

definition fragment_failure_world :: world where
  "fragment_failure_world =
     \<lparr>calls = [CreateShader VERTEX_SHADER (Some 0), ShaderSource 0 ''v'', CompileShader 0,
               CreateShader FRAGMENT_SHADER (Some 1), ShaderSource 1 ''f'', CompileShader 1,
               DeleteShader 1],
      next_handle = 2, canvas_width = 300, canvas_height = 150, console = [], image_requests = []\<rparr>"

section \<open>Facts about the single steps\<close>

lemma setUniformValue_Location:
  "setUniformValue (Location l) v w = (Inr (), w\<lparr>calls := calls w @ spec_uniform_upload l v\<rparr>)"
proof (cases v)
  case (Scalar x)
  then show ?thesis
    by (simp add: setUniformValue_def uniformf_def issue_def spec_uniform_upload_def)
next
  case (Array xs)
  then show ?thesis
    by (auto simp: setUniformValue_def uniformf_def issue_def spec_uniform_upload_def split: list.splits)
qed

lemma setUniformValue_skip:
  "length xs = 0 \<or> 5 \<le> length xs \<Longrightarrow> setUniformValue loc (Array xs) w = (Inr (), w)"
  by (auto simp: setUniformValue_def)

lemma count_draws_append: "count_draws (cs @ ds) = count_draws cs + count_draws ds"
  by (simp add: count_draws_def)

lemma count_draws_draw_calls: "count_draws (draw_calls s) = 1"
  by (simp add: count_draws_def draw_calls_def)

lemma draw_eq: "draw s = s\<lparr>gl := (gl s)\<lparr>calls := calls (gl s) @ draw_calls s\<rparr>\<rparr>"
  by (simp add: draw_def draw_calls_def issue_def)

lemma count_draws_upload: "count_draws (spec_uniform_upload l v) = 0"
  by (auto simp: count_draws_def spec_uniform_upload_def split: uvalue.splits list.splits)

lemma createShader_Inr:
  "createShader env ty src w = (Inr h, w') \<longleftrightarrow>
     create_shader_ok env ty \<and> compile_status env ty src \<and> h = next_handle w \<and>
     w' = w\<lparr>next_handle := Suc (next_handle w),
            calls := calls w @ [CreateShader ty (Some (next_handle w)), ShaderSource (next_handle w) src,
                                 CompileShader (next_handle w)]\<rparr>"
  by (auto simp: createShader_def allocate_def issue_def Let_def split: prod.splits option.splits if_splits)

lemma createShader_Inl:
  "createShader env ty src w = (Inl e, w') \<longleftrightarrow>
     (\<not> create_shader_ok env ty \<and> e = Error ''Error creating shader.'' \<and>
        w' = w\<lparr>calls := calls w @ [CreateShader ty None]\<rparr>) \<or>
     (create_shader_ok env ty \<and> \<not> compile_status env ty src \<and>
        e = Error (''Error compiling shader:'' @ shader_info_log env ty src) \<and>
        w' = w\<lparr>next_handle := Suc (next_handle w),
               calls := calls w @ [CreateShader ty (Some (next_handle w)), ShaderSource (next_handle w) src,
                                    CompileShader (next_handle w), DeleteShader (next_handle w)]\<rparr>)"
  by (auto simp: createShader_def allocate_def issue_def Let_def split: prod.splits option.splits if_splits)

lemma createProgram_Inr:
  "createProgram env vs fs w = (Inr h, w') \<longleftrightarrow>
     create_program_ok env \<and> link_status env \<and> h = next_handle w \<and>
     w' = w\<lparr>next_handle := Suc (next_handle w),
            calls := calls w @ [CreateProgram (Some (next_handle w)), AttachShader (next_handle w) vs,
                                 AttachShader (next_handle w) fs, LinkProgram (next_handle w),
                                 ValidateProgram (next_handle w)],
            console := console w @ (if validate_status env then []
                                    else [''Error validating program: '' @ program_info_log env])\<rparr>"
  by (auto simp: createProgram_def allocate_def issue_def Let_def split: prod.splits option.splits if_splits)

lemma createProgram_Inl:
  "createProgram env vs fs w = (Inl e, w') \<longleftrightarrow>
     (\<not> create_program_ok env \<and> e = Error ''Unable to create shader program.'' \<and>
        w' = w\<lparr>calls := calls w @ [CreateProgram None]\<rparr>) \<or>
     (create_program_ok env \<and> \<not> link_status env \<and>
        e = Error (''Error linking program: '' @ program_info_log env) \<and>
        w' = w\<lparr>next_handle := Suc (next_handle w),
               calls := calls w @ [CreateProgram (Some (next_handle w)), AttachShader (next_handle w) vs,
                                    AttachShader (next_handle w) fs, LinkProgram (next_handle w),
                                    ValidateProgram (next_handle w), DeleteProgram (next_handle w)]\<rparr>)"
  by (auto simp: createProgram_def allocate_def issue_def Let_def split: prod.splits option.splits if_splits)

lemma new_Texture_Inr:
  "new_Texture env prog i d w = (Inr t, w') \<Longrightarrow>
     create_texture_ok env i \<and> tex_unit t = i \<and> tex_name t = t_name d \<and> tex_source t = t_source d \<and>
     tex_program t = prog \<and> texture t = next_handle w \<and> next_handle w' = Suc (next_handle w) \<and>
     calls w' = calls w @ [CreateTexture (Some (next_handle w))] \<and> console w' = console w"
  by (auto simp: new_Texture_def createTexture_def loadTexture_def allocate_def issue_def
      split: prod.splits option.splits if_splits)

lemma new_Texture_Inl:
  "new_Texture env prog i d w = (Inl e, w') \<Longrightarrow>
     \<not> create_texture_ok env i \<and> e = Error ''Failed to create WebGL texture.'' \<and>
     calls w' = calls w @ [CreateTexture None]"
  by (auto simp: new_Texture_def createTexture_def loadTexture_def allocate_def issue_def
      split: prod.splits option.splits if_splits)

lemma new_Texture_ok:
  "create_texture_ok env i \<Longrightarrow> \<exists>t w'. new_Texture env prog i d w = (Inr t, w')"
  by (simp add: new_Texture_def createTexture_def allocate_def)

lemma textures_map_Inr:
  "textures_map env prog i ds w = (Inr ts, w') \<Longrightarrow>
     length ts = length ds \<and> map tex_unit ts = [i..<i + length ds] \<and>
     map tex_name ts = map t_name ds \<and> map tex_source ts = map t_source ds \<and>
     map texture ts = [next_handle w..<next_handle w + length ds] \<and>
     next_handle w' = next_handle w + length ds \<and> console w' = console w"
proof (induction ds arbitrary: i w ts w')
  case Nil
  then show ?case by simp
next
  case (Cons d ds)
  from Cons.prems obtain t w1 ts' where
    t: "new_Texture env prog i d w = (Inr t, w1)" and
    r: "textures_map env prog (Suc i) ds w1 = (Inr ts', w')" and ts: "ts = t # ts'"
    by (auto split: prod.splits sum.splits)
  note h = new_Texture_Inr [OF t] and ih = Cons.IH [OF r]
  from h ih ts show ?case by (simp add: upt_conv_Cons del: upt_Suc)
qed

lemma textures_map_ok:
  "\<forall>k<length ds. create_texture_ok env (i + k) \<Longrightarrow> \<exists>ts w'. textures_map env prog i ds w = (Inr ts, w')"
proof (induction ds arbitrary: i w)
  case Nil
  then show ?case by simp
next
  case (Cons d ds)
  from Cons.prems have "create_texture_ok env i" by auto
  then obtain t w1 where t: "new_Texture env prog i d w = (Inr t, w1)"
    using new_Texture_ok by blast
  from Cons.prems have "\<forall>k<length ds. create_texture_ok env (Suc i + k)" by auto
  from Cons.IH [OF this] obtain ts w2 where "textures_map env prog (Suc i) ds w1 = (Inr ts, w2)"
    by blast
  with t show ?case by simp
qed

lemma textures_map_Inr_ok:
  "textures_map env prog i ds w = (Inr ts, w') \<Longrightarrow> \<forall>k<length ds. create_texture_ok env (i + k)"
proof (induction ds arbitrary: i w ts w')
  case Nil
  then show ?case by simp
next
  case (Cons d ds)
  from Cons.prems obtain t w1 ts' where
    t: "new_Texture env prog i d w = (Inr t, w1)" and
    r: "textures_map env prog (Suc i) ds w1 = (Inr ts', w')"
    by (auto split: prod.splits sum.splits)
  from new_Texture_Inr [OF t] have 0: "create_texture_ok env i" by simp
  from Cons.IH [OF r] have ih: "\<forall>k<length ds. create_texture_ok env (Suc i + k)" .
  show ?case
  proof (intro allI impI)
    fix k assume "k < length (d # ds)"
    then show "create_texture_ok env (i + k)"
      using 0 ih by (cases k) auto
  qed
qed

lemma created_append: "created (cs @ ds) = created cs @ created ds"
  by (induction cs rule: created.induct) simp_all

lemma textures_map_calls:
  "textures_map env prog i ds w = (r, w') \<Longrightarrow>
     \<exists>tcs. calls w' = calls w @ tcs \<and> filter is_delete tcs = [] \<and> created tcs = [] \<and>
           (\<forall>e. r = Inl e \<longrightarrow> tcs \<noteq> [] \<and> last tcs = CreateTexture None \<and>
                  e = Error ''Failed to create WebGL texture.'')"
proof (induction ds arbitrary: i w r w')
  case Nil
  then show ?case by auto
next
  case (Cons d ds)
  obtain r1 w1 where t: "new_Texture env prog i d w = (r1, w1)" by force
  show ?case
  proof (cases r1)
    case (Inl e)
    with t Cons.prems have "r = Inl e" "w' = w1" by simp_all
    moreover from t Inl have "calls w1 = calls w @ [CreateTexture None]"
      "e = Error ''Failed to create WebGL texture.''"
      using new_Texture_Inl by blast+
    ultimately show ?thesis by simp
  next
    case (Inr tx)
    with t have c1: "calls w1 = calls w @ [CreateTexture (Some (next_handle w))]"
      using new_Texture_Inr by blast
    obtain r2 w2 where m: "textures_map env prog (Suc i) ds w1 = (r2, w2)" by force
    from Cons.IH [OF m] obtain tcs where
      tcs: "calls w2 = calls w1 @ tcs" "filter is_delete tcs = []" "created tcs = []"
        "\<forall>e. r2 = Inl e \<longrightarrow> tcs \<noteq> [] \<and> last tcs = CreateTexture None \<and>
               e = Error ''Failed to create WebGL texture.''"
      by blast
    from t Inr m Cons.prems have w': "w' = w2" and r: "\<forall>e. r = Inl e \<longrightarrow> r2 = Inl e"
      by (auto split: sum.splits)
    let ?cs = "CreateTexture (Some (next_handle w)) # tcs"
    have "calls w' = calls w @ ?cs" using w' tcs(1) c1 by simp
    moreover have "filter is_delete ?cs = []" "created ?cs = []" using tcs by simp_all
    moreover have "\<forall>e. r = Inl e \<longrightarrow> ?cs \<noteq> [] \<and> last ?cs = CreateTexture None \<and>
                     e = Error ''Failed to create WebGL texture.''"
      using r tcs(4) by auto
    ultimately show ?thesis by blast
  qed
qed

lemma fold_Texture_dispose:
  "calls (fold Texture_dispose ts w) = calls w @ map (\<lambda>t. DeleteTexture (texture t)) ts"
  by (induction ts arbitrary: w) (simp_all add: Texture_dispose_def issue_def)

lemma dispose_calls:
  "calls (gl (dispose s)) = calls (gl s) @ [DeleteProgram (program s), DeleteShader (vertexShader s),
      DeleteShader (fragmentShader s)] @ map (\<lambda>t. DeleteTexture (texture t)) (textures s)"
  by (simp add: dispose_def fold_Texture_dispose Shader_dispose_def issue_def)

lemma setUniforms_result:
  "setUniforms env us s = (e, s') \<Longrightarrow>
     e = None \<and> textures s' = textures s \<and> program s' = program s \<and>
     vertexShader s' = vertexShader s \<and> fragmentShader s' = fragmentShader s \<and>
     width s' = width s \<and> height s' = height s \<and> console (gl s') = console (gl s) \<and>
     next_handle (gl s') = next_handle (gl s)"
proof (induction us arbitrary: s)
  case Nil
  then show ?case by simp
next
  case (Cons u us)
  show ?case
  proof (cases "uniform_location env (u_name u)")
    case None
    with Cons show ?thesis by simp
  next
    case (Some l)
    let ?s1 = "s\<lparr>uniforms := set_member (u_name u) l (uniforms s),
                 uniformValues := set_value (u_name u) (u_value u) (uniformValues s),
                 gl := (gl s)\<lparr>calls := calls (gl s) @ spec_uniform_upload l (u_value u)\<rparr>\<rparr>"
    from Cons.prems Some have "setUniforms env us ?s1 = (e, s')"
      by (simp add: setUniformValue_Location)
    from Cons.IH [OF this] show ?thesis by simp
  qed
qed

lemma setupAttributes_result:
  "setupAttributes env s = (None, s') \<Longrightarrow>
     create_buffer_ok env \<and> textures s' = textures s \<and> program s' = program s \<and>
     vertexShader s' = vertexShader s \<and> fragmentShader s' = fragmentShader s \<and>
     width s' = width s \<and> height s' = height s \<and> console (gl s') = console (gl s) \<and>
     uniforms s' = uniforms s \<and> uniformValues s' = uniformValues s"
  by (auto simp: setupAttributes_def Let_def allocate_def issue_def split: prod.splits option.splits if_splits)

lemma setupAttributes_Some:
  "setupAttributes env s = (Some e, s') \<Longrightarrow>
     e = Error ''Unable to create buffer.'' \<and> calls (gl s') = calls (gl s) @ [CreateBuffer None]"
  by (auto simp: setupAttributes_def Let_def allocate_def issue_def split: prod.splits option.splits if_splits)

lemma setupAttributes_ok:
  "create_buffer_ok env \<Longrightarrow> \<exists>s'. setupAttributes env s = (None, s')"
  by (simp add: setupAttributes_def Let_def allocate_def)

section \<open>Facts about the constructor\<close>

lemma new_FastWebGL_Inr:
  assumes "new_FastWebGL env p w = Inr s"
  obtains w1 w2 w3 ts w4 s1 s2 where
    "createShader env VERTEX_SHADER (vertexSource p) w = (Inr (vertexShader s), w1)"
    "createShader env FRAGMENT_SHADER (fragmentSource p) w1 = (Inr (fragmentShader s), w2)"
    "createProgram env (vertexShader s) (fragmentShader s) w2 = (Inr (program s), w3)"
    "textures_map env (program s) 0 (p_textures p) w3 = (Inr (textures s), w4)"
    "setupAttributes env \<lparr>gl = issue (UseProgram (program s)) w4,
        width = (case opt_width p of Some x \<Rightarrow> x | None \<Rightarrow> inner_width env),
        height = (case opt_height p of Some x \<Rightarrow> x | None \<Rightarrow> inner_height env),
        vertexShader = vertexShader s, fragmentShader = fragmentShader s, program = program s,
        textures = textures s, uniforms = empty_object, uniformValues = Map.empty,
        attribLocations = Map.empty, startTime = now env\<rparr> = (None, s1)"
    "setUniforms env (p_uniforms p) s1 = (None, s2)"
    "s = draw (resize (width s2) (height s2) s2)"
    "context_available env"
proof -
  from assms have ctx: "context_available env"
    by (simp add: new_FastWebGL_def split: if_splits)
  from assms ctx obtain vs w1 where
    a: "createShader env VERTEX_SHADER (vertexSource p) w = (Inr vs, w1)"
    by (auto simp: new_FastWebGL_def split: prod.splits sum.splits)
  from assms ctx a obtain fs w2 where
    b: "createShader env FRAGMENT_SHADER (fragmentSource p) w1 = (Inr fs, w2)"
    by (auto simp: new_FastWebGL_def split: prod.splits sum.splits)
  from assms ctx a b obtain prog w3 where
    c: "createProgram env vs fs w2 = (Inr prog, w3)"
    by (auto simp: new_FastWebGL_def split: prod.splits sum.splits)
  from assms ctx a b c obtain ts w4 where
    d: "textures_map env prog 0 (p_textures p) w3 = (Inr ts, w4)"
    by (auto simp: new_FastWebGL_def split: prod.splits sum.splits)
  define s0 where "s0 = \<lparr>gl = issue (UseProgram prog) w4,
        width = (case opt_width p of Some x \<Rightarrow> x | None \<Rightarrow> inner_width env),
        height = (case opt_height p of Some x \<Rightarrow> x | None \<Rightarrow> inner_height env),
        vertexShader = vs, fragmentShader = fs, program = prog,
        textures = ts, uniforms = empty_object, uniformValues = Map.empty,
        attribLocations = Map.empty, startTime = now env\<rparr>"
  from assms ctx a b c d obtain s1 where
    e: "setupAttributes env s0 = (None, s1)"
    by (auto simp: new_FastWebGL_def s0_def Let_def split: prod.splits sum.splits option.splits)
  from assms ctx a b c d e obtain s2 where
    f: "setUniforms env (p_uniforms p) s1 = (None, s2)" and
    g: "s = draw (resize (width s2) (height s2) s2)"
    by (auto simp: new_FastWebGL_def s0_def Let_def split: prod.splits sum.splits option.splits)
  note r1 = setupAttributes_result [OF e] and r2 = setUniforms_result [OF f]
  have "vertexShader s = vs" "fragmentShader s = fs" "program s = prog" "textures s = ts"
    using r1 r2 by (simp_all add: g draw_def resize_def s0_def)
  with a b c d e f g ctx that show thesis
    unfolding s0_def by blast
qed

lemma new_FastWebGL_Inl:
  assumes "new_FastWebGL env p w = Inl (e, w')"
  shows "(\<not> context_available env \<and> e = Error ''WebGL not supported.'' \<and> w' = w) \<or>
         createShader env VERTEX_SHADER (vertexSource p) w = (Inl e, w') \<or>
         (\<exists>vs w1. createShader env VERTEX_SHADER (vertexSource p) w = (Inr vs, w1) \<and>
            (createShader env FRAGMENT_SHADER (fragmentSource p) w1 = (Inl e, w') \<or>
             (\<exists>fs w2. createShader env FRAGMENT_SHADER (fragmentSource p) w1 = (Inr fs, w2) \<and>
                (createProgram env vs fs w2 = (Inl e, w') \<or>
                 (\<exists>prog w3. createProgram env vs fs w2 = (Inr prog, w3) \<and>
                    (textures_map env prog 0 (p_textures p) w3 = (Inl e, w') \<or>
                     (\<exists>ts w4. textures_map env prog 0 (p_textures p) w3 = (Inr ts, w4) \<and>
                        e = Error ''Unable to create buffer.'' \<and>
                        calls w' = calls w4 @ [UseProgram prog, CreateBuffer None])))))))"
proof (cases "context_available env")
  case False
  with assms show ?thesis by (simp add: new_FastWebGL_def)
next
  case ctx: True
  obtain r1 w1 where a: "createShader env VERTEX_SHADER (vertexSource p) w = (r1, w1)" by force
  show ?thesis
  proof (cases r1)
    case (Inl e1)
    with assms ctx a show ?thesis by (simp add: new_FastWebGL_def)
  next
    case vs: (Inr vs)
    obtain r2 w2 where b: "createShader env FRAGMENT_SHADER (fragmentSource p) w1 = (r2, w2)" by force
    show ?thesis
    proof (cases r2)
      case (Inl e2)
      with assms ctx a vs b show ?thesis by (simp add: new_FastWebGL_def)
    next
      case fs: (Inr fs)
      obtain r3 w3 where c: "createProgram env vs fs w2 = (r3, w3)" by force
      show ?thesis
      proof (cases r3)
        case (Inl e3)
        with assms ctx a vs b fs c show ?thesis by (simp add: new_FastWebGL_def)
      next
        case prog: (Inr prog)
        obtain r4 w4 where d: "textures_map env prog 0 (p_textures p) w3 = (r4, w4)" by force
        show ?thesis
        proof (cases r4)
          case (Inl e4)
          with assms ctx a vs b fs c prog d show ?thesis by (simp add: new_FastWebGL_def)
        next
          case ts: (Inr ts)
          define s0 where "s0 = \<lparr>gl = issue (UseProgram prog) w4,
              width = (case opt_width p of Some x \<Rightarrow> x | None \<Rightarrow> inner_width env),
              height = (case opt_height p of Some x \<Rightarrow> x | None \<Rightarrow> inner_height env),
              vertexShader = vs, fragmentShader = fs, program = prog,
              textures = ts, uniforms = empty_object, uniformValues = Map.empty,
              attribLocations = Map.empty, startTime = now env\<rparr>"
          obtain r5 s1 where f: "setupAttributes env s0 = (r5, s1)" by force
          have r5: "r5 = Some e \<and> w' = gl s1"
          proof (cases r5)
            case None
            obtain r6 s2 where g: "setUniforms env (p_uniforms p) s1 = (r6, s2)" by force
            with setUniforms_result have "r6 = None" by blast
            with assms ctx a vs b fs c prog d ts f None g show ?thesis
              by (simp add: new_FastWebGL_def s0_def)
          next
            case (Some e5)
            with assms ctx a vs b fs c prog d ts f show ?thesis
              by (simp add: new_FastWebGL_def s0_def)
          qed
          with f have "setupAttributes env s0 = (Some e, s1)" by simp
          from setupAttributes_Some [OF this] r5
          have "e = Error ''Unable to create buffer.''"
            "calls w' = calls w4 @ [UseProgram prog, CreateBuffer None]"
            by (simp_all add: s0_def issue_def)
          with a vs b fs c prog d ts show ?thesis by simp
        qed
      qed
    qed
  qed
qed

lemma constructed_handles:
  assumes "new_FastWebGL env p w = Inr s"
  shows "vertexShader s = next_handle w \<and> fragmentShader s = next_handle w + 1 \<and>
         program s = next_handle w + 2 \<and>
         map texture (textures s) = [next_handle w + 3..<next_handle w + 3 + length (p_textures p)]"
proof -
  from assms obtain w1 w2 w3 w4 where
    a: "createShader env VERTEX_SHADER (vertexSource p) w = (Inr (vertexShader s), w1)" and
    b: "createShader env FRAGMENT_SHADER (fragmentSource p) w1 = (Inr (fragmentShader s), w2)" and
    c: "createProgram env (vertexShader s) (fragmentShader s) w2 = (Inr (program s), w3)" and
    d: "textures_map env (program s) 0 (p_textures p) w3 = (Inr (textures s), w4)"
    by (rule new_FastWebGL_Inr)
  from a have 1: "vertexShader s = next_handle w" "next_handle w1 = Suc (next_handle w)"
    by (simp_all add: createShader_Inr)
  from b 1 have 2: "fragmentShader s = next_handle w + 1" "next_handle w2 = next_handle w + 2"
    by (simp_all add: createShader_Inr)
  from c 2 have 3: "program s = next_handle w + 2" "next_handle w3 = next_handle w + 3"
    by (simp_all add: createProgram_Inr)
  from textures_map_Inr [OF d] 3
  have "map texture (textures s) = [next_handle w + 3..<next_handle w + 3 + length (p_textures p)]"
    by simp
  with 1 2 3 show ?thesis by simp
qed

lemma failure_shapeI:
  "cs = [] \<Longrightarrow> e = Error ''WebGL not supported.'' \<Longrightarrow> failure_shape env e cs"
  "cs \<noteq> [] \<Longrightarrow> filter is_delete cs = [] \<Longrightarrow>
     (last cs, e) \<in> {(CreateShader VERTEX_SHADER None, Error ''Error creating shader.''),
                        (CreateShader FRAGMENT_SHADER None, Error ''Error creating shader.''),
                        (CreateProgram None, Error ''Unable to create shader program.''),
                        (CreateTexture None, Error ''Failed to create WebGL texture.''),
                        (CreateBuffer None, Error ''Unable to create buffer.'')} \<Longrightarrow> failure_shape env e cs"
  "created cs \<noteq> [] \<Longrightarrow> filter is_delete cs = [DeleteShader (last (created cs))] \<Longrightarrow>
     last cs = DeleteShader (last (created cs)) \<Longrightarrow>
     e = Error (''Error compiling shader:'' @ shader_info_log env ty src) \<Longrightarrow> failure_shape env e cs"
  "created cs \<noteq> [] \<Longrightarrow> filter is_delete cs = [DeleteProgram (last (created cs))] \<Longrightarrow>
     last cs = DeleteProgram (last (created cs)) \<Longrightarrow>
     e = Error (''Error linking program: '' @ program_info_log env) \<Longrightarrow> failure_shape env e cs"
  unfolding failure_shape_def by blast+

lemma createShader_failure:
  assumes "createShader env ty src w1 = (Inl e, w')" and "calls w1 = calls w @ pre"
    and "filter is_delete pre = []" and "ty = VERTEX_SHADER \<or> ty = FRAGMENT_SHADER"
  shows "\<exists>cs. calls w' = calls w @ cs \<and> failure_shape env e cs"
proof -
  from assms(1) consider
    (null) "e = Error ''Error creating shader.''" "calls w' = calls w1 @ [CreateShader ty None]"
  | (compile) "e = Error (''Error compiling shader:'' @ shader_info_log env ty src)"
      "calls w' = calls w1 @ [CreateShader ty (Some (next_handle w1)), ShaderSource (next_handle w1) src,
         CompileShader (next_handle w1), DeleteShader (next_handle w1)]"
    by (auto simp: createShader_Inl)
  then show ?thesis
  proof cases
    case null
    let ?cs = "pre @ [CreateShader ty None]"
    have "calls w' = calls w @ ?cs" using null assms(2) by simp
    moreover have "failure_shape env e ?cs"
      by (rule failure_shapeI(2)) (use null assms(3,4) in auto)
    ultimately show ?thesis by blast
  next
    case compile
    let ?h = "next_handle w1"
    let ?cs = "pre @ [CreateShader ty (Some ?h), ShaderSource ?h src, CompileShader ?h, DeleteShader ?h]"
    have "calls w' = calls w @ ?cs" using compile assms(2) by simp
    moreover have "failure_shape env e ?cs"
      by (rule failure_shapeI(3) [where ty = ty and src = src])
         (use compile assms(3) in \<open>simp_all add: created_append\<close>)
    ultimately show ?thesis by blast
  qed
qed

lemma createProgram_failure:
  assumes "createProgram env vs fs w2 = (Inl e, w')" and "calls w2 = calls w @ pre"
    and "filter is_delete pre = []"
  shows "\<exists>cs. calls w' = calls w @ cs \<and> failure_shape env e cs"
proof -
  let ?h = "next_handle w2"
  from assms(1) consider
    (null) "e = Error ''Unable to create shader program.''" "calls w' = calls w2 @ [CreateProgram None]"
  | (link) "e = Error (''Error linking program: '' @ program_info_log env)"
      "calls w' = calls w2 @ [CreateProgram (Some ?h), AttachShader ?h vs, AttachShader ?h fs,
         LinkProgram ?h, ValidateProgram ?h, DeleteProgram ?h]"
    by (auto simp: createProgram_Inl)
  then show ?thesis
  proof cases
    case null
    let ?cs = "pre @ [CreateProgram None]"
    have "calls w' = calls w @ ?cs" using null assms(2) by simp
    moreover have "failure_shape env e ?cs"
      by (rule failure_shapeI(2)) (use null assms(3) in auto)
    ultimately show ?thesis by blast
  next
    case link
    let ?cs = "pre @ [CreateProgram (Some ?h), AttachShader ?h vs, AttachShader ?h fs,
         LinkProgram ?h, ValidateProgram ?h, DeleteProgram ?h]"
    have "calls w' = calls w @ ?cs" using link assms(2) by simp
    moreover have "failure_shape env e ?cs"
      by (rule failure_shapeI(4)) (use link assms(3) in \<open>simp_all add: created_append\<close>)
    ultimately show ?thesis by blast
  qed
qed

lemma new_FastWebGL_link_failure:
  assumes "steps_ok env p" and "\<not> link_status env"
  shows "new_FastWebGL env p w =
           Inl (Error (''Error linking program: '' @ program_info_log env),
                w\<lparr>next_handle := next_handle w + 3,
                  calls := calls w @ link_failure_calls (next_handle w) p\<rparr>)"
  using assms
  by (simp add: steps_ok_def new_FastWebGL_def createShader_def createProgram_def allocate_def
      issue_def Let_def link_failure_calls_def)

lemma new_FastWebGL_success:
  assumes "steps_ok env p" and "link_status env"
    and "\<forall>i<length (p_textures p). create_texture_ok env i" and "create_buffer_ok env"
  shows "\<exists>s. new_FastWebGL env p w = Inr s \<and>
           console (gl s) = console w @ (if validate_status env then []
                                         else [''Error validating program: '' @ program_info_log env])"
proof -
  let ?n = "next_handle w"
  let ?warn = "if validate_status env then [] else [''Error validating program: '' @ program_info_log env]"
  from assms(1) obtain w1 where a: "createShader env VERTEX_SHADER (vertexSource p) w = (Inr ?n, w1)"
    and w1: "console w1 = console w"
    by (simp add: steps_ok_def createShader_Inr)
  from assms(1) obtain fs w2 where b: "createShader env FRAGMENT_SHADER (fragmentSource p) w1 = (Inr fs, w2)"
    and w2: "console w2 = console w1"
    by (simp add: steps_ok_def createShader_Inr)
  from assms(1,2) obtain prog w3 where c: "createProgram env ?n fs w2 = (Inr prog, w3)"
    and w3: "console w3 = console w2 @ ?warn"
    by (simp add: steps_ok_def createProgram_Inr)
  from assms(3) obtain ts w4 where d: "textures_map env prog 0 (p_textures p) w3 = (Inr ts, w4)"
    using textures_map_ok [of "p_textures p" env 0 prog w3] by auto
  from textures_map_Inr [OF d] have w4: "console w4 = console w3" by simp
  define s0 where "s0 = \<lparr>gl = issue (UseProgram prog) w4,
      width = (case opt_width p of Some x \<Rightarrow> x | None \<Rightarrow> inner_width env),
      height = (case opt_height p of Some x \<Rightarrow> x | None \<Rightarrow> inner_height env),
      vertexShader = ?n, fragmentShader = fs, program = prog,
      textures = ts, uniforms = empty_object, uniformValues = Map.empty,
      attribLocations = Map.empty, startTime = now env\<rparr>"
  from assms(4) obtain s1 where e: "setupAttributes env s0 = (None, s1)"
    using setupAttributes_ok by blast
  obtain r s2 where f: "setUniforms env (p_uniforms p) s1 = (r, s2)" by force
  with setUniforms_result have r: "r = None" by blast
  have "new_FastWebGL env p w = Inr (draw (resize (width s2) (height s2) s2))"
    using assms(1) a b c d e f r by (simp add: new_FastWebGL_def steps_ok_def s0_def)
  moreover have "console (gl (draw (resize (width s2) (height s2) s2))) = console w @ ?warn"
    using setupAttributes_result [OF e] setUniforms_result [OF f] w1 w2 w3 w4
    by (simp add: draw_def resize_def issue_def s0_def)
  ultimately show ?thesis by blast
qed

lemma new_FastWebGL_Inr_conditions:
  assumes "new_FastWebGL env p w = Inr s"
  shows "steps_ok env p \<and> link_status env \<and>
         (\<forall>i<length (p_textures p). create_texture_ok env i) \<and> create_buffer_ok env"
proof -
  from assms obtain w1 w2 w3 w4 s1 where
    a: "createShader env VERTEX_SHADER (vertexSource p) w = (Inr (vertexShader s), w1)" and
    b: "createShader env FRAGMENT_SHADER (fragmentSource p) w1 = (Inr (fragmentShader s), w2)" and
    c: "createProgram env (vertexShader s) (fragmentShader s) w2 = (Inr (program s), w3)" and
    d: "textures_map env (program s) 0 (p_textures p) w3 = (Inr (textures s), w4)" and
    e: "setupAttributes env \<lparr>gl = issue (UseProgram (program s)) w4,
        width = (case opt_width p of Some x \<Rightarrow> x | None \<Rightarrow> inner_width env),
        height = (case opt_height p of Some x \<Rightarrow> x | None \<Rightarrow> inner_height env),
        vertexShader = vertexShader s, fragmentShader = fragmentShader s, program = program s,
        textures = textures s, uniforms = empty_object, uniformValues = Map.empty,
        attribLocations = Map.empty, startTime = now env\<rparr> = (None, s1)" and
    ctx: "context_available env"
    by (rule new_FastWebGL_Inr)
  from a b c ctx have "steps_ok env p" "link_status env"
    by (simp_all add: steps_ok_def createShader_Inr createProgram_Inr)
  moreover from textures_map_Inr_ok [OF d] have "\<forall>i<length (p_textures p). create_texture_ok env i"
    by simp
  moreover from setupAttributes_result [OF e] have "create_buffer_ok env" by simp
  ultimately show ?thesis by simp
qed

lemma example_construction: "new_FastWebGL example_env example_params example_world = Inr example_object"
  by (simp add: new_FastWebGL_def example_env_def example_params_def example_world_def example_object_def
      createShader_def createProgram_def allocate_def issue_def new_Texture_def createTexture_def
      loadTexture_def setupAttributes_def setUniformValue_def uniformf_def set_member_def set_value_def
      empty_object_def draw_def resize_def Let_def)

lemma example_fragment_failure:
  "new_FastWebGL env_fragment_fails example_params example_world =
     Inl (Error ''Error compiling shader:bad shader'', fragment_failure_world)"
  by (simp add: new_FastWebGL_def env_fragment_fails_def example_env_def example_params_def example_world_def
      fragment_failure_world_def createShader_def allocate_def issue_def Let_def)

text \<open>
  \<open>dispose\<close> deletes the program, the vertex shader, the fragment shader and the texture
  of every unit, in this order; on a constructed object these are different handles.
\<close>

lemma dispose_field_handles:
  "calls (gl (dispose s)) =
     calls (gl s) @ [DeleteProgram (program s), DeleteShader (vertexShader s), DeleteShader (fragmentShader s)]
       @ map (\<lambda>t. DeleteTexture (texture t)) (textures s) \<and>
   (new_FastWebGL env p w = Inr s \<longrightarrow>
      distinct ([DeleteProgram (program s), DeleteShader (vertexShader s), DeleteShader (fragmentShader s)]
        @ map (\<lambda>t. DeleteTexture (texture t)) (textures s)))"
proof -
  have "distinct (map (\<lambda>t. DeleteTexture (texture t)) (textures s))"
    if "new_FastWebGL env p w = Inr s"
  proof -
    have "distinct (map texture (textures s))"
      using constructed_handles [OF that] by simp
    moreover have "map (\<lambda>t. DeleteTexture (texture t)) (textures s) = map DeleteTexture (map texture (textures s))"
      by simp
    ultimately show ?thesis
      by (simp only: distinct_map) (auto simp: inj_on_def)
  qed
  moreover have "vertexShader s \<noteq> fragmentShader s" if "new_FastWebGL env p w = Inr s"
    using constructed_handles [OF that] by simp
  ultimately show ?thesis
    by (auto simp: dispose_calls)
qed

text \<open>
  After construction the own properties of \<open>uniforms\<close> and of \<open>uniformValues\<close> are the
  same names: the descriptor names for which the program has a location, \<open>__proto__\<close>
  apart, which never becomes an own property.
\<close>

lemma registered_names_Cons:
  "registered_names env (u # us) =
     (if uniform_location env (u_name u) \<noteq> None \<and> u_name u \<noteq> ''__proto__''
      then insert (u_name u) (registered_names env us) else registered_names env us)"
  by (auto simp: registered_names_def)

lemma setUniforms_keys:
  "setUniforms env us s = (e, s') \<Longrightarrow>
     own (uniforms s') =
       (\<lambda>n. if n \<in> registered_names env us then uniform_location env n else own (uniforms s) n) \<and>
     dom (uniformValues s') = dom (uniformValues s) \<union> registered_names env us"
proof (induction us arbitrary: s)
  case Nil
  then show ?case by (simp add: registered_names_def)
next
  case (Cons u us)
  show ?case
  proof (cases "uniform_location env (u_name u)")
    case None
    with Cons.prems have "setUniforms env us s = (e, s')" by simp
    from Cons.IH [OF this] None show ?thesis
      by (simp add: registered_names_Cons)
  next
    case (Some l)
    let ?s1 = "s\<lparr>uniforms := set_member (u_name u) l (uniforms s),
                 uniformValues := set_value (u_name u) (u_value u) (uniformValues s),
                 gl := (gl s)\<lparr>calls := calls (gl s) @ spec_uniform_upload l (u_value u)\<rparr>\<rparr>"
    from Cons.prems Some have "setUniforms env us ?s1 = (e, s')"
      by (simp add: setUniformValue_Location)
    note ih = Cons.IH [OF this]
    from ih have "own (uniforms s') =
       (\<lambda>n. if n \<in> registered_names env (u # us) then uniform_location env n else own (uniforms s) n)"
      using Some by (auto simp: registered_names_Cons set_member_def fun_eq_iff)
    moreover from ih have "dom (uniformValues s') = dom (uniformValues s) \<union> registered_names env (u # us)"
      using Some by (auto simp: registered_names_Cons set_value_def)
    ultimately show ?thesis by simp
  qed
qed

lemma constructed_keys:
  assumes "new_FastWebGL env p w = Inr s"
  shows "dom (own (uniforms s)) = registered_names env (p_uniforms p) \<and>
         dom (uniformValues s) = registered_names env (p_uniforms p) \<and>
         (\<forall>n \<in> registered_names env (p_uniforms p). own (uniforms s) n = uniform_location env n)"
proof -
  from assms obtain w4 s1 s2 where
    e: "setupAttributes env \<lparr>gl = issue (UseProgram (program s)) w4,
        width = (case opt_width p of Some x \<Rightarrow> x | None \<Rightarrow> inner_width env),
        height = (case opt_height p of Some x \<Rightarrow> x | None \<Rightarrow> inner_height env),
        vertexShader = vertexShader s, fragmentShader = fragmentShader s, program = program s,
        textures = textures s, uniforms = empty_object, uniformValues = Map.empty,
        attribLocations = Map.empty, startTime = now env\<rparr> = (None, s1)" and
    f: "setUniforms env (p_uniforms p) s1 = (None, s2)" and
    g: "s = draw (resize (width s2) (height s2) s2)"
    by (rule new_FastWebGL_Inr)
  from setupAttributes_result [OF e]
  have s1: "own (uniforms s1) = Map.empty" "uniformValues s1 = Map.empty"
    by (simp_all add: empty_object_def)
  have s: "uniforms s = uniforms s2" "uniformValues s = uniformValues s2"
    by (simp_all add: g draw_def resize_def)
  from setUniforms_keys [OF f]
  have k: "own (uniforms s2) =
      (\<lambda>n. if n \<in> registered_names env (p_uniforms p) then uniform_location env n else own (uniforms s1) n)"
    "dom (uniformValues s2) = dom (uniformValues s1) \<union> registered_names env (p_uniforms p)"
    by blast+
  have own: "own (uniforms s) =
      (\<lambda>n. if n \<in> registered_names env (p_uniforms p) then uniform_location env n else None)"
    by (simp add: s k s1 cong: if_cong)
  have vals: "dom (uniformValues s) = registered_names env (p_uniforms p)"
    by (simp add: s k s1)
  have "dom (own (uniforms s)) = registered_names env (p_uniforms p)"
    by (auto simp: own registered_names_def split: if_splits)
  with own vals show ?thesis by simp
qed

text \<open>
  \<open>updateUniform\<close> returns at once for a name that is neither an own property nor an
  inherited member, and never touches \<open>uniforms\<close>; it adds an own property to
  \<open>uniformValues\<close> whenever \<open>uniforms[name]\<close> reads as anything at all.
\<close>

lemma updateUniform_unknown_name:
  assumes "own (uniforms s) name = None" and "name \<notin> set object_prototype_names"
  shows "updateUniform name v s = (None, s)"
proof -
  from assms(2) have "name \<noteq> ''__proto__''"
    by (auto simp: object_prototype_names_def)
  with assms show ?thesis
    by (simp add: updateUniform_def get_member_def)
qed

lemma updateUniform_keys:
  assumes "updateUniform name v s = (e, s')"
  shows "uniforms s' = uniforms s \<and>
         dom (uniformValues s') =
           (if get_member (uniforms s) name \<noteq> None \<and> name \<noteq> ''__proto__''
            then insert name (dom (uniformValues s)) else dom (uniformValues s))"
  using assms
  by (auto simp: updateUniform_def set_value_def draw_def Let_def split: option.splits prod.splits sum.splits)

section \<open>The claims\<close>

subsection \<open>C1: the encoding of a uniform value\<close>



subsection \<open>C2: a construction that fails\<close>

text \<open>
  Claim C2 as stated asks that every shader or program handle created before the failure
  is released before the error propagates. It is not: on the page whose fragment shader
  does not compile, the constructor throws the compile error having deleted the fragment
  shader (handle 1) only; the vertex shader (handle 0), compiled just before, is never
  deleted.
\<close>

theorem construction_failure_leaks_vertex_shader:
  "new_FastWebGL env_fragment_fails example_params example_world =
     Inl (Error ''Error compiling shader:bad shader'', fragment_failure_world) \<and>
   created (calls fragment_failure_world) = [0, 1] \<and>
   released (calls fragment_failure_world) = [1] \<and>
   leaked (calls fragment_failure_world) = [0]"
  using example_fragment_failure
  by (simp add: fragment_failure_world_def leaked_def)

text \<open>
  Claim C2, amended. Whenever the constructor fails, the caller gets the error and no
  object, the failing step is the last command issued, and the handle whose own status
  check failed (the shader that did not compile, the program that did not link) is
  released as the last command before the error propagates. The constructor issues no
  other release.
\<close>

theorem construction_failure_releases:
  assumes "new_FastWebGL env p w = Inl (e, w')"
  shows "\<exists>cs. calls w' = calls w @ cs \<and> failure_shape env e cs"
proof -
  note d = new_FastWebGL_Inl [OF assms]
  show ?thesis
  proof (cases "context_available env")
    case False
    with assms have "e = Error ''WebGL not supported.''" "w' = w"
      by (simp_all add: new_FastWebGL_def)
    then have "calls w' = calls w @ []" "failure_shape env e []"
      by (simp_all add: failure_shape_def)
    then show ?thesis by blast
  next
    case True
    with d consider
      (v) "createShader env VERTEX_SHADER (vertexSource p) w = (Inl e, w')"
    | (f) vs w1 where "createShader env VERTEX_SHADER (vertexSource p) w = (Inr vs, w1)"
        "createShader env FRAGMENT_SHADER (fragmentSource p) w1 = (Inl e, w')"
    | (p) vs w1 fs w2 where "createShader env VERTEX_SHADER (vertexSource p) w = (Inr vs, w1)"
        "createShader env FRAGMENT_SHADER (fragmentSource p) w1 = (Inr fs, w2)"
        "createProgram env vs fs w2 = (Inl e, w')"
    | (t) vs w1 fs w2 prog w3 where "createShader env VERTEX_SHADER (vertexSource p) w = (Inr vs, w1)"
        "createShader env FRAGMENT_SHADER (fragmentSource p) w1 = (Inr fs, w2)"
        "createProgram env vs fs w2 = (Inr prog, w3)"
        "textures_map env prog 0 (p_textures p) w3 = (Inl e, w')"
    | (b) vs w1 fs w2 prog w3 ts w4 where "createShader env VERTEX_SHADER (vertexSource p) w = (Inr vs, w1)"
        "createShader env FRAGMENT_SHADER (fragmentSource p) w1 = (Inr fs, w2)"
        "createProgram env vs fs w2 = (Inr prog, w3)"
        "textures_map env prog 0 (p_textures p) w3 = (Inr ts, w4)"
        "e = Error ''Unable to create buffer.''"
        "calls w' = calls w4 @ [UseProgram prog, CreateBuffer None]"
      by blast
    then show ?thesis
    proof cases
      case v
      then show ?thesis using createShader_failure [of env VERTEX_SHADER _ w e w' w "[]"] by simp
    next
      case f
      from f(1) obtain pre where "calls w1 = calls w @ pre" "filter is_delete pre = []"
        by (auto simp: createShader_Inr)
      with f(2) show ?thesis using createShader_failure by blast
    next
      case p
      from p(1) obtain pre1 where 1: "calls w1 = calls w @ pre1" "filter is_delete pre1 = []"
        by (auto simp: createShader_Inr)
      from p(2) obtain pre2 where 2: "calls w2 = calls w1 @ pre2" "filter is_delete pre2 = []"
        by (auto simp: createShader_Inr)
      from 1 2 have "calls w2 = calls w @ (pre1 @ pre2)" "filter is_delete (pre1 @ pre2) = []"
        by simp_all
      with p(3) show ?thesis using createProgram_failure by blast
    next
      case t
      from t(1) obtain pre1 where 1: "calls w1 = calls w @ pre1" "filter is_delete pre1 = []"
        by (auto simp: createShader_Inr)
      from t(2) obtain pre2 where 2: "calls w2 = calls w1 @ pre2" "filter is_delete pre2 = []"
        by (auto simp: createShader_Inr)
      from t(3) obtain pre3 where 3: "calls w3 = calls w2 @ pre3" "filter is_delete pre3 = []"
        by (auto simp: createProgram_Inr)
      from textures_map_calls [OF t(4)] obtain tcs where
        4: "calls w' = calls w3 @ tcs" "filter is_delete tcs = []" "tcs \<noteq> []" "last tcs = CreateTexture None"
        and e: "e = Error ''Failed to create WebGL texture.''"
        by blast
      let ?cs = "pre1 @ pre2 @ pre3 @ tcs"
      have "calls w' = calls w @ ?cs" using 1 2 3 4 by simp
      moreover have "failure_shape env e ?cs"
        by (rule failure_shapeI(2)) (use 1 2 3 4 e in auto)
      ultimately show ?thesis by blast
    next
      case b
      from b(1) obtain pre1 where 1: "calls w1 = calls w @ pre1" "filter is_delete pre1 = []"
        by (auto simp: createShader_Inr)
      from b(2) obtain pre2 where 2: "calls w2 = calls w1 @ pre2" "filter is_delete pre2 = []"
        by (auto simp: createShader_Inr)
      from b(3) obtain pre3 where 3: "calls w3 = calls w2 @ pre3" "filter is_delete pre3 = []"
        by (auto simp: createProgram_Inr)
      from textures_map_calls [OF b(4)] obtain tcs where
        4: "calls w4 = calls w3 @ tcs" "filter is_delete tcs = []"
        by blast
      let ?cs = "pre1 @ pre2 @ pre3 @ tcs @ [UseProgram prog, CreateBuffer None]"
      have "calls w' = calls w @ ?cs" using 1 2 3 4 b(6) by simp
      moreover have "failure_shape env e ?cs"
        by (rule failure_shapeI(2)) (use 1 2 3 4 b(5) in auto)
      ultimately show ?thesis by blast
    qed
  qed
qed

theorem construction_failure_releases_witness:
  "new_FastWebGL env_fragment_fails example_params example_world =
     Inl (Error ''Error compiling shader:bad shader'', fragment_failure_world) \<and>
   failure_shape env_fragment_fails (Error ''Error compiling shader:bad shader'')
     (calls fragment_failure_world)"
  using construction_failure_releases [OF example_fragment_failure] example_fragment_failure
  by (simp add: example_world_def)

subsection \<open>C3: updating a registered uniform\<close>

text \<open>
  Claim C3. For a name that is an own property of \<open>uniforms\<close> (by \<open>constructed_keys\<close>:
  a descriptor name for which the program has a location), \<open>updateUniform\<close> raises nothing,
  stores the new value under that name, leaves \<open>uniforms\<close> alone, issues the upload of the
  value at the stored location (by the encoding rule; a scalar as one \<open>Uniform1f\<close>) and
  after it the five commands of exactly one redraw. The name \<open>__proto__\<close> is never an own
  property of an object written by \<open>obj[name] = v\<close>.
\<close>

theorem updateUniform_registered:
  assumes "own (uniforms s) name = Some l" and "name \<noteq> ''__proto__''"
  shows "\<exists>s'. updateUniform name v s = (None, s') \<and>
           uniformValues s' = (uniformValues s)(name \<mapsto> v) \<and>
           uniforms s' = uniforms s \<and>
           calls (gl s') = calls (gl s) @ spec_uniform_upload l v @ draw_calls s \<and>
           count_draws (calls (gl s')) = count_draws (calls (gl s)) + 1 \<and>
           spec_uniform_upload l (Scalar x) = [Uniform1f l x]"
proof -
  define s' where "s' = draw (s\<lparr>uniformValues := (uniformValues s)(name \<mapsto> v),
                                 gl := (gl s)\<lparr>calls := calls (gl s) @ spec_uniform_upload l v\<rparr>\<rparr>)"
  have run: "updateUniform name v s = (None, s')"
    using assms by (simp add: updateUniform_def get_member_def set_value_def setUniformValue_Location s'_def)
  have cs: "calls (gl s') = calls (gl s) @ spec_uniform_upload l v @ draw_calls s"
    by (simp add: s'_def draw_eq draw_calls_def)
  have "count_draws (calls (gl s')) = count_draws (calls (gl s)) + 1"
    by (simp add: cs count_draws_append count_draws_upload count_draws_draw_calls)
  moreover have "uniformValues s' = (uniformValues s)(name \<mapsto> v)" "uniforms s' = uniforms s"
    by (simp_all add: s'_def draw_eq)
  moreover have "spec_uniform_upload l (Scalar x) = [Uniform1f l x]"
    by (simp add: spec_uniform_upload_def)
  ultimately show ?thesis using run cs by blast
qed

theorem updateUniform_registered_witness:
  "own (uniforms example_object) ''u_time'' = Some 0 \<and>
   updateUniform ''u_time'' (Scalar 1.5) example_object =
     (None, draw (example_object\<lparr>uniformValues := (uniformValues example_object)(''u_time'' \<mapsto> Scalar 1.5),
                                 gl := issue (Uniform1f 0 1.5) (gl example_object)\<rparr>)) \<and>
   count_draws (calls (gl (snd (updateUniform ''u_time'' (Scalar 1.5) example_object)))) =
     count_draws (calls (gl example_object)) + 1"
proof -
  have own: "own (uniforms example_object) ''u_time'' = Some 0"
    by (simp add: example_object_def)
  have ne: "''u_time'' \<noteq> ''__proto__''" by simp
  from updateUniform_registered [OF own ne, of "Scalar 1.5"] obtain s' where
    s': "updateUniform ''u_time'' (Scalar 1.5) example_object = (None, s')"
      "count_draws (calls (gl s')) = count_draws (calls (gl example_object)) + 1"
    by blast
  have "updateUniform ''u_time'' (Scalar 1.5) example_object =
     (None, draw (example_object\<lparr>uniformValues := (uniformValues example_object)(''u_time'' \<mapsto> Scalar 1.5),
                                 gl := issue (Uniform1f 0 1.5) (gl example_object)\<rparr>))"
    using own by (simp add: updateUniform_def get_member_def set_value_def setUniformValue_def uniformf_def)
  with s' own show ?thesis by simp
qed

subsection \<open>C4: updating a name that was never registered\<close>

text \<open>
  Claim C4 says that \<open>updateUniform\<close> does nothing for a name that was never registered.
  The guard \<open>if (location)\<close> lets every member inherited from \<open>Object.prototype\<close> through.
  On the example object, whose program declares no uniform \<open>toString\<close>,
  \<open>updateUniform("toString", [])\<close> stores the empty sequence under \<open>toString\<close> and
  redraws, and \<open>updateUniform("toString", 1)\<close> stores 1 and then fails with \<open>TypeError\<close>
  in the context's \<open>uniform1f\<close>. (For a name that is neither registered nor inherited the
  call does nothing: \<open>updateUniform_unknown_name\<close>.)
\<close>

theorem updateUniform_inherited_name:
  "uniform_location example_env ''toString'' = None \<and>
   own (uniforms example_object) ''toString'' = None \<and>
   uniformValues example_object ''toString'' = None \<and>
   get_member (uniforms example_object) ''toString'' = Some Builtin \<and>
   updateUniform ''toString'' (Array []) example_object =
     (None, draw (example_object\<lparr>uniformValues := (uniformValues example_object)(''toString'' \<mapsto> Array [])\<rparr>)) \<and>
   uniformValues (snd (updateUniform ''toString'' (Array []) example_object)) ''toString'' = Some (Array []) \<and>
   count_draws (calls (gl (snd (updateUniform ''toString'' (Array []) example_object)))) =
     count_draws (calls (gl example_object)) + 1 \<and>
   updateUniform ''toString'' (Scalar 1) example_object =
     (Some TypeError, example_object\<lparr>uniformValues := (uniformValues example_object)(''toString'' \<mapsto> Scalar 1)\<rparr>)"
proof -
  have m: "get_member (uniforms example_object) ''toString'' = Some Builtin"
    by (simp add: get_member_def example_object_def object_prototype_names_def)
  have a: "updateUniform ''toString'' (Array []) example_object =
     (None, draw (example_object\<lparr>uniformValues := (uniformValues example_object)(''toString'' \<mapsto> Array [])\<rparr>))"
    by (simp add: updateUniform_def m set_value_def setUniformValue_def)
  have b: "updateUniform ''toString'' (Scalar 1) example_object =
     (Some TypeError, example_object\<lparr>uniformValues := (uniformValues example_object)(''toString'' \<mapsto> Scalar 1)\<rparr>)"
    by (simp add: updateUniform_def m set_value_def setUniformValue_def uniformf_def)
  have c: "count_draws (calls (gl (snd (updateUniform ''toString'' (Array []) example_object)))) =
     count_draws (calls (gl example_object)) + 1"
    by (simp add: a draw_eq count_draws_append count_draws_draw_calls)
  have d: "uniformValues (snd (updateUniform ''toString'' (Array []) example_object)) ''toString'' = Some (Array [])"
    by (simp add: a draw_eq)
  have e: "uniform_location example_env ''toString'' = None" "own (uniforms example_object) ''toString'' = None"
    "uniformValues example_object ''toString'' = None"
    by (simp_all add: example_env_def example_object_def)
  from m a b c d e show ?thesis by blast
qed

subsection \<open>C5: link failure and validation warning\<close>

text \<open>
  Claim C5. When the program is created and its link status is false, \<open>createProgram\<close>
  deletes the program as its last command and throws an error that carries the info log,
  and so does the constructor when the steps before the link succeed. When the link status
  is true and the validate status is false, \<open>createProgram\<close> returns the program and
  logs one warning with the info log, and the constructor, when its other steps succeed,
  returns an object.
\<close>

theorem link_failure_and_validate_warning:
  "(create_program_ok env \<and> \<not> link_status env \<longrightarrow>
      createProgram env vs fs w =
        (Inl (Error (''Error linking program: '' @ program_info_log env)),
         w\<lparr>next_handle := Suc (next_handle w),
           calls := calls w @ [CreateProgram (Some (next_handle w)), AttachShader (next_handle w) vs,
                               AttachShader (next_handle w) fs, LinkProgram (next_handle w),
                               ValidateProgram (next_handle w), DeleteProgram (next_handle w)]\<rparr>)) \<and>
   (create_program_ok env \<and> link_status env \<and> \<not> validate_status env \<longrightarrow>
      createProgram env vs fs w =
        (Inr (next_handle w),
         w\<lparr>next_handle := Suc (next_handle w),
           calls := calls w @ [CreateProgram (Some (next_handle w)), AttachShader (next_handle w) vs,
                               AttachShader (next_handle w) fs, LinkProgram (next_handle w),
                               ValidateProgram (next_handle w)],
           console := console w @ [''Error validating program: '' @ program_info_log env]\<rparr>)) \<and>
   (steps_ok env p \<and> \<not> link_status env \<longrightarrow>
      new_FastWebGL env p w =
        Inl (Error (''Error linking program: '' @ program_info_log env),
             w\<lparr>next_handle := next_handle w + 3,
               calls := calls w @ link_failure_calls (next_handle w) p\<rparr>)) \<and>
   (steps_ok env p \<and> link_status env \<and> \<not> validate_status env \<and>
    (\<forall>i<length (p_textures p). create_texture_ok env i) \<and> create_buffer_ok env \<longrightarrow>
      (\<exists>s. new_FastWebGL env p w = Inr s \<and>
            console (gl s) = console w @ [''Error validating program: '' @ program_info_log env]))"
proof -
  have "createProgram env vs fs w =
        (Inl (Error (''Error linking program: '' @ program_info_log env)),
         w\<lparr>next_handle := Suc (next_handle w),
           calls := calls w @ [CreateProgram (Some (next_handle w)), AttachShader (next_handle w) vs,
                               AttachShader (next_handle w) fs, LinkProgram (next_handle w),
                               ValidateProgram (next_handle w), DeleteProgram (next_handle w)]\<rparr>)"
    if "create_program_ok env" "\<not> link_status env"
    using that by (simp add: createProgram_Inl)
  moreover have "createProgram env vs fs w =
        (Inr (next_handle w),
         w\<lparr>next_handle := Suc (next_handle w),
           calls := calls w @ [CreateProgram (Some (next_handle w)), AttachShader (next_handle w) vs,
                               AttachShader (next_handle w) fs, LinkProgram (next_handle w),
                               ValidateProgram (next_handle w)],
           console := console w @ [''Error validating program: '' @ program_info_log env]\<rparr>)"
    if "create_program_ok env" "link_status env" "\<not> validate_status env"
    using that by (simp add: createProgram_Inr)
  moreover have "\<exists>s. new_FastWebGL env p w = Inr s \<and>
            console (gl s) = console w @ [''Error validating program: '' @ program_info_log env]"
    if "steps_ok env p" "link_status env" "\<not> validate_status env"
      "\<forall>i<length (p_textures p). create_texture_ok env i" "create_buffer_ok env"
    using new_FastWebGL_success [OF that(1,2,4,5), of w] that(3) by simp
  ultimately show ?thesis
    using new_FastWebGL_link_failure [of env p w] by blast
qed

theorem link_failure_and_validate_warning_witness:
  "steps_ok env_link_fails example_params \<and> \<not> link_status env_link_fails \<and>
   new_FastWebGL env_link_fails example_params example_world =
     Inl (Error ''Error linking program: bad program'',
          example_world\<lparr>next_handle := 3, calls := link_failure_calls 0 example_params\<rparr>) \<and>
   last (link_failure_calls 0 example_params) = DeleteProgram 2 \<and>
   steps_ok env_validate_fails example_params \<and> link_status env_validate_fails \<and>
   \<not> validate_status env_validate_fails \<and>
   (\<exists>s. new_FastWebGL env_validate_fails example_params example_world = Inr s \<and>
        console (gl s) = [''Error validating program: bad program''])"
proof -
  have 1: "steps_ok env_link_fails example_params" "\<not> link_status env_link_fails"
    by (simp_all add: steps_ok_def env_link_fails_def example_env_def)
  have 2: "steps_ok env_validate_fails example_params" "link_status env_validate_fails"
    "\<not> validate_status env_validate_fails" "create_buffer_ok env_validate_fails"
    "\<forall>i<length (p_textures example_params). create_texture_ok env_validate_fails i"
    by (simp_all add: steps_ok_def env_validate_fails_def example_env_def)
  have 3: "program_info_log env_link_fails = ''bad program''"
    "program_info_log env_validate_fails = ''bad program''"
    "next_handle example_world = 0" "calls example_world = []" "console example_world = []"
    by (simp_all add: env_link_fails_def env_validate_fails_def example_env_def example_world_def)
  have "new_FastWebGL env_link_fails example_params example_world =
     Inl (Error ''Error linking program: bad program'',
          example_world\<lparr>next_handle := 3, calls := link_failure_calls 0 example_params\<rparr>)"
    using link_failure_and_validate_warning [of env_link_fails _ _ example_world example_params] 1 3 by simp
  moreover have "\<exists>s. new_FastWebGL env_validate_fails example_params example_world = Inr s \<and>
        console (gl s) = [''Error validating program: bad program'']"
    using link_failure_and_validate_warning [of env_validate_fails _ _ example_world example_params] 2 3 by simp
  moreover have "last (link_failure_calls 0 example_params) = DeleteProgram 2"
    by (simp add: link_failure_calls_def)
  ultimately show ?thesis using 1 2 by blast
qed

subsection \<open>C6: dispose\<close>

text \<open>
  Claim C6 says that \<open>dispose\<close> releases the program, then the two shaders, then every
  texture unit, and so each owned handle exactly once. The order holds and each of these
  handles is deleted once (\<open>dispose_field_handles\<close>). The vertex buffer that
  \<open>setupAttributes\<close> creates is owned by the object as well and is never deleted. On the
  example object the construction hands out the handles 0 to 5, the buffer being 5;
  \<open>dispose\<close> deletes 2, 0, 1, 3, 4, and the buffer is left.
\<close>

theorem dispose_leaves_buffer:
  "new_FastWebGL example_env example_params example_world = Inr example_object \<and>
   calls (gl (dispose example_object)) =
     calls (gl example_object) @
       [DeleteProgram 2, DeleteShader 0, DeleteShader 1, DeleteTexture 3, DeleteTexture 4] \<and>
   handed_out (calls (gl (dispose example_object))) = [0, 1, 2, 3, 4, 5] \<and>
   deleted (calls (gl (dispose example_object))) = [2, 0, 1, 3, 4] \<and>
   undeleted (calls (gl (dispose example_object))) = [5] \<and>
   CreateBuffer (Some 5) \<in> set (calls (gl example_object))"
proof -
  have c: "calls (gl (dispose example_object)) =
     calls (gl example_object) @
       [DeleteProgram 2, DeleteShader 0, DeleteShader 1, DeleteTexture 3, DeleteTexture 4]"
    by (simp add: dispose_calls) (simp add: example_object_def)
  have h: "handed_out (calls (gl (dispose example_object))) = [0, 1, 2, 3, 4, 5]"
    unfolding c by (simp add: example_object_def)
  have d: "deleted (calls (gl (dispose example_object))) = [2, 0, 1, 3, 4]"
    unfolding c by (simp add: example_object_def)
  have u: "undeleted (calls (gl (dispose example_object))) = [5]"
    by (simp add: undeleted_def h d)
  have b: "CreateBuffer (Some 5) \<in> set (calls (gl example_object))"
    by (simp add: example_object_def)
  from example_construction c h d u b show ?thesis by blast
qed

subsection \<open>C7: resize\<close>

text \<open>
  Claim C7. \<open>resize\<close> stores the new dimensions, sets the size of the canvas, issues the
  one command \<open>Viewport 0 0 w h\<close> and no draw; a \<open>draw\<close> after it sets the viewport to
  \<open>(0, 0, w, h)\<close>, in particular to \<open>(0, 0, 800, 600)\<close> after \<open>resize(800, 600)\<close>.
\<close>

theorem resize_then_draw:
  "width (resize w h s) = w \<and> height (resize w h s) = h \<and>
   canvas_width (gl (resize w h s)) = w \<and> canvas_height (gl (resize w h s)) = h \<and>
   calls (gl (resize w h s)) = calls (gl s) @ [Viewport 0 0 w h] \<and>
   count_draws (calls (gl (resize w h s))) = count_draws (calls (gl s)) \<and>
   calls (gl (draw (resize w h s))) =
     calls (gl (resize w h s)) @
       [Viewport 0 0 w h, ClearColor 0 0 0 0, ClearColorBuffer, UseProgram (program s), DrawTriangles 0 6] \<and>
   calls (gl (draw (resize 800 600 s))) =
     calls (gl (resize 800 600 s)) @
       [Viewport 0 0 800 600, ClearColor 0 0 0 0, ClearColorBuffer, UseProgram (program s), DrawTriangles 0 6]"
  by (simp add: resize_def draw_def issue_def count_draws_def)

subsection \<open>C8: texture units\<close>

text \<open>
  Claim C8. The constructor returns an object exactly when a context is available, both
  shaders are created and compile, the program is created and links, every texture
  descriptor gets its texture and the vertex buffer is created. The object it returns
  holds one texture unit per texture descriptor, in the order of the descriptors, with the
  name and source of its descriptor, with a texture handle of its own, and with the unit
  indices 0, 1, 2, ..: pairwise different and without gap.
\<close>

theorem construction_texture_units:
  "((\<exists>s. new_FastWebGL env p w = Inr s) \<longleftrightarrow>
      steps_ok env p \<and> link_status env \<and>
      (\<forall>i<length (p_textures p). create_texture_ok env i) \<and> create_buffer_ok env) \<and>
   (new_FastWebGL env p w = Inr s \<longrightarrow>
      length (textures s) = length (p_textures p) \<and>
      map tex_unit (textures s) = [0..<length (p_textures p)] \<and>
      map tex_name (textures s) = map t_name (p_textures p) \<and>
      map tex_source (textures s) = map t_source (p_textures p) \<and>
      map texture (textures s) = [next_handle w + 3..<next_handle w + 3 + length (p_textures p)] \<and>
      distinct (map tex_unit (textures s)) \<and> distinct (map texture (textures s)))"
proof -
  have 1: "(\<exists>s. new_FastWebGL env p w = Inr s) \<longleftrightarrow>
      steps_ok env p \<and> link_status env \<and>
      (\<forall>i<length (p_textures p). create_texture_ok env i) \<and> create_buffer_ok env"
    using new_FastWebGL_Inr_conditions [of env p w] new_FastWebGL_success [of env p w] by blast
  have 2: "length (textures s) = length (p_textures p) \<and>
      map tex_unit (textures s) = [0..<length (p_textures p)] \<and>
      map tex_name (textures s) = map t_name (p_textures p) \<and>
      map tex_source (textures s) = map t_source (p_textures p) \<and>
      map texture (textures s) = [next_handle w + 3..<next_handle w + 3 + length (p_textures p)] \<and>
      distinct (map tex_unit (textures s)) \<and> distinct (map texture (textures s))"
    if r: "new_FastWebGL env p w = Inr s"
  proof -
    from r obtain w3 w4 where
      "textures_map env (program s) 0 (p_textures p) w3 = (Inr (textures s), w4)"
      by (rule new_FastWebGL_Inr)
    from textures_map_Inr [OF this] constructed_handles [OF r] show ?thesis by simp
  qed
  from 1 2 show ?thesis by blast
qed

theorem construction_texture_units_witness:
  "steps_ok example_env example_params \<and> link_status example_env \<and>
   create_texture_ok example_env 0 \<and> create_texture_ok example_env 1 \<and>
   create_buffer_ok example_env \<and>
   new_FastWebGL example_env example_params example_world = Inr example_object \<and>
   map tex_unit (textures example_object) = [0, 1] \<and>
   map tex_name (textures example_object) = [''u_tex0'', ''u_tex1''] \<and>
   map tex_source (textures example_object) = [''a.png'', ''b.png''] \<and>
   map texture (textures example_object) = [3, 4]"
proof -
  have ok: "steps_ok example_env example_params" "link_status example_env"
    "create_texture_ok example_env 0" "create_texture_ok example_env 1"
    "create_buffer_ok example_env"
    by (simp_all add: steps_ok_def example_env_def)
  have all: "\<forall>i<length (p_textures example_params). create_texture_ok example_env i"
    by (simp add: example_env_def)
  note t = construction_texture_units [of example_env example_params example_world example_object]
  from t ok all obtain s where s: "new_FastWebGL example_env example_params example_world = Inr s"
    by blast
  with example_construction have "s = example_object" by simp
  with s have r: "new_FastWebGL example_env example_params example_world = Inr example_object"
    by simp
  from t r have "map tex_unit (textures example_object) = [0..<length (p_textures example_params)]"
    "map tex_name (textures example_object) = map t_name (p_textures example_params)"
    "map tex_source (textures example_object) = map t_source (p_textures example_params)"
    "map texture (textures example_object) =
       [next_handle example_world + 3..<next_handle example_world + 3 + length (p_textures example_params)]"
    by blast+
  then have "map tex_unit (textures example_object) = [0, 1]"
    "map tex_name (textures example_object) = [''u_tex0'', ''u_tex1'']"
    "map tex_source (textures example_object) = [''a.png'', ''b.png'']"
    "map texture (textures example_object) = [3, 4]"
    by (simp_all add: example_params_def example_world_def upt_conv_Cons del: upt_Suc)
  with ok r show ?thesis by blast
qed

subsection \<open>C9: a registered uniform and a sequence of unsupported length\<close>

text \<open>
  Claim C9. For an own property of \<open>uniforms\<close>, \<open>updateUniform\<close> with a sequence of
  length 0 or of length 5 and more stores the sequence under the name and redraws once,
  and the redraw is all it issues: no upload.
\<close>

theorem updateUniform_unsupported_length:
  assumes "own (uniforms s) name = Some l" and "name \<noteq> ''__proto__''"
    and "length xs = 0 \<or> 5 \<le> length xs"
  shows "\<exists>s'. updateUniform name (Array xs) s = (None, s') \<and>
           uniformValues s' name = Some (Array xs) \<and>
           calls (gl s') = calls (gl s) @ draw_calls s \<and>
           count_draws (calls (gl s')) = count_draws (calls (gl s)) + 1"
  using assms
  by (simp add: updateUniform_def get_member_def set_value_def setUniformValue_skip draw_eq
      draw_calls_def count_draws_def)

theorem updateUniform_unsupported_length_witness:
  "own (uniforms example_object) ''u_resolution'' = Some 1 \<and>
   length [1, 2, 3, 4, 5 :: number] = 5 \<and>
   updateUniform ''u_resolution'' (Array [1, 2, 3, 4, 5]) example_object =
     (None, draw (example_object\<lparr>uniformValues :=
        (uniformValues example_object)(''u_resolution'' \<mapsto> Array [1, 2, 3, 4, 5])\<rparr>)) \<and>
   count_draws (calls (gl (snd (updateUniform ''u_resolution'' (Array [1, 2, 3, 4, 5]) example_object)))) =
     count_draws (calls (gl example_object)) + 1"
proof -
  have own: "own (uniforms example_object) ''u_resolution'' = Some 1"
    by (simp add: example_object_def)
  have ne: "''u_resolution'' \<noteq> ''__proto__''" by simp
  have len: "length [1, 2, 3, 4, 5 :: number] = 0 \<or> 5 \<le> length [1, 2, 3, 4, 5 :: number]" by simp
  from updateUniform_unsupported_length [OF own ne len] obtain s' where
    s': "updateUniform ''u_resolution'' (Array [1, 2, 3, 4, 5]) example_object = (None, s')"
      "count_draws (calls (gl s')) = count_draws (calls (gl example_object)) + 1"
    by blast
  have "updateUniform ''u_resolution'' (Array [1, 2, 3, 4, 5]) example_object =
     (None, draw (example_object\<lparr>uniformValues :=
        (uniformValues example_object)(''u_resolution'' \<mapsto> Array [1, 2, 3, 4, 5])\<rparr>))"
    using own by (simp add: updateUniform_def get_member_def set_value_def setUniformValue_def)
  with s' own show ?thesis by simp
qed

subsection \<open>C10: the names of the two objects\<close>

text \<open>
  Claim C10 says that the two objects hold the same names after construction and that
  no \<open>updateUniform\<close> adds or removes a name. The first half holds
  (\<open>constructed_keys\<close>). For the second, on the example object
  \<open>updateUniform("toString", [])\<close> adds the name \<open>toString\<close> to \<open>uniformValues\<close> and
  not to \<open>uniforms\<close>: the guard \<open>if (location)\<close> lets the inherited member through.
\<close>

theorem inherited_name_breaks_key_equality:
  "dom (own (uniforms example_object)) = {''u_time'', ''u_resolution''} \<and>
   dom (uniformValues example_object) = {''u_time'', ''u_resolution''} \<and>
   dom (own (uniforms (snd (updateUniform ''toString'' (Array []) example_object)))) =
     {''u_time'', ''u_resolution''} \<and>
   dom (uniformValues (snd (updateUniform ''toString'' (Array []) example_object))) =
     {''u_time'', ''u_resolution'', ''toString''}"
proof -
  have m: "get_member (uniforms example_object) ''toString'' = Some Builtin"
    by (simp add: get_member_def example_object_def object_prototype_names_def)
  have a: "updateUniform ''toString'' (Array []) example_object =
     (None, draw (example_object\<lparr>uniformValues := (uniformValues example_object)(''toString'' \<mapsto> Array [])\<rparr>))"
    by (simp add: updateUniform_def m set_value_def setUniformValue_def)
  have 1: "dom (own (uniforms example_object)) = {''u_time'', ''u_resolution''}"
    by (auto simp: example_object_def)
  have 2: "dom (uniformValues example_object) = {''u_time'', ''u_resolution''}"
    by (auto simp: example_object_def)
  from 1 2 show ?thesis
    by (auto simp: a draw_eq)
qed

end
